theory Spec2Isabelle
  imports
    Complex_Main
    "HOL-Library.Char_ord"
    "HOL-Library.List_Lexorder"
    "HOL-Library.Product_Lexorder"
    "HOL-Library.AList"
begin

section \<open>Text primitives\<close>

text \<open>
  Texts are Python \<open>str\<close> values.  They are modelled as \<^typ>\<open>string\<close> and read as
  sequences of ASCII code points, so \<open>len\<close> is \<^const>\<open>length\<close>.  The character classes
  below are Python's \<open>\<bsol>s\<close>, \<open>\<bsol>d\<close> and \<open>\<bsol>w\<close> (equally \<open>str.isspace\<close> and friends) on
  that range; outside it Python counts further characters as whitespace (U+0085,
  U+00A0), as letters or as digits.  Font sizes and coordinates are Python floats; they
  are modelled as rationals, with exact arithmetic, so a quotient that lies on a
  threshold can compare differently in the source (\<open>19.2 / 12 >= 1.6\<close> holds of the
  rationals and not of the floats).
\<close>

definition is_space :: "char \<Rightarrow> bool" where
  "is_space c = (let n = (of_char c :: nat) in (9 \<le> n \<and> n \<le> 13) \<or> (28 \<le> n \<and> n \<le> 32))"

definition is_digit :: "char \<Rightarrow> bool" where
  "is_digit c = (let n = (of_char c :: nat) in 48 \<le> n \<and> n \<le> 57)"

definition is_upper :: "char \<Rightarrow> bool" where
  "is_upper c = (let n = (of_char c :: nat) in 65 \<le> n \<and> n \<le> 90)"

definition is_lower :: "char \<Rightarrow> bool" where
  "is_lower c = (let n = (of_char c :: nat) in 97 \<le> n \<and> n \<le> 122)"

definition is_alpha :: "char \<Rightarrow> bool" where
  "is_alpha c = (is_upper c \<or> is_lower c)"

definition is_word :: "char \<Rightarrow> bool" where
  "is_word c = (is_alpha c \<or> is_digit c \<or> c = CHR ''_'')"

definition lower_char :: "char \<Rightarrow> char" where
  "lower_char c = (if is_upper c then char_of (of_char c + (32::nat)) else c)"

text \<open>\<open>str.lower()\<close>\<close>

definition lower :: "string \<Rightarrow> string" where
  "lower s = map lower_char s"

text \<open>\<open>str.strip()\<close> and \<open>str.rstrip()\<close>\<close>

definition lstrip :: "string \<Rightarrow> string" where
  "lstrip s = dropWhile is_space s"

definition rstrip :: "string \<Rightarrow> string" where
  "rstrip s = rev (dropWhile is_space (rev s))"

definition strip :: "string \<Rightarrow> string" where
  "strip s = rstrip (lstrip s)"

text \<open>\<open>str.split()\<close>: the maximal runs of non-whitespace characters.\<close>

fun split_acc :: "string \<Rightarrow> string \<Rightarrow> string list" where
  "split_acc w [] = (if w = [] then [] else [rev w])"
| "split_acc w (c # cs) =
     (if is_space c then (if w = [] then split_acc [] cs else rev w # split_acc [] cs)
      else split_acc (c # w) cs)"

definition split :: "string \<Rightarrow> string list" where
  "split s = split_acc [] s"

text \<open>\<open>k in s\<close> for strings, \<open>s.startswith(k)\<close> and \<open>s.endswith(k)\<close>\<close>

definition starts_with :: "string \<Rightarrow> string \<Rightarrow> bool" where
  "starts_with s k = (take (length k) s = k)"

definition ends_with :: "string \<Rightarrow> string \<Rightarrow> bool" where
  "ends_with s k = starts_with (rev s) (rev k)"

fun contains :: "string \<Rightarrow> string \<Rightarrow> bool" where
  "contains [] k = (k = [])"
| "contains (c # cs) k = (starts_with (c # cs) k \<or> contains cs k)"

text \<open>\<open>str.isupper()\<close>: some cased character, and no lowercase one.\<close>

definition isupper :: "string \<Rightarrow> bool" where
  "isupper s = ((\<exists>c \<in> set s. is_upper c) \<and> (\<forall>c \<in> set s. \<not> is_lower c))"

text \<open>
  \<open>str.istitle()\<close>: an uppercase character only after an uncased one, a lowercase
  character only after a cased one, and at least one cased character.  The first
  argument says whether the previous character was cased, the second whether a cased
  character has been seen.
\<close>

fun istitle_from :: "bool \<Rightarrow> bool \<Rightarrow> string \<Rightarrow> bool" where
  "istitle_from prev seen [] = seen"
| "istitle_from prev seen (c # cs) =
     (if is_upper c then (if prev then False else istitle_from True True cs)
      else if is_lower c then (if prev then istitle_from True True cs else False)
      else istitle_from False seen cs)"

definition istitle :: "string \<Rightarrow> bool" where
  "istitle s = istitle_from False False s"

section \<open>The patterns of the heading classifier\<close>

text \<open>
  The regular expressions of \<open>_extract_headings\<close> are written as functions on the text.
  A function for a pattern prefix returns the rest of the text after the match, or
  \<open>None\<close>.  In every pattern below a repetition is followed by a character outside the
  repeated class, so the greedy match is the only one that can succeed.
\<close>

text \<open>\<open>\<bsol>d+\<close>\<close>

definition digits1 :: "string \<Rightarrow> string option" where
  "digits1 s = (case s of [] \<Rightarrow> None
                | c # r \<Rightarrow> if is_digit c then Some (dropWhile is_digit r) else None)"

text \<open>a literal character\<close>

definition lit :: "char \<Rightarrow> string \<Rightarrow> string option" where
  "lit c s = (case s of [] \<Rightarrow> None | d # r \<Rightarrow> if d = c then Some r else None)"

text \<open>\<open>\<bsol>d+\<bsol>.\<close>\<close>

definition digits_dot :: "string \<Rightarrow> string option" where
  "digits_dot s = Option.bind (digits1 s) (lit CHR ''.'')"

text \<open>
  A further \<open>\<bsol>.\<bsol>d+\<close> after a match; then \<open>\<bsol>d+\<bsol>.\<bsol>d+\<close>, \<open>\<bsol>d+\<bsol>.\<bsol>d+\<bsol>.\<bsol>d+\<close> and
  \<open>\<bsol>d+\<bsol>.\<bsol>d+\<bsol>.\<bsol>d+\<bsol>.\<bsol>d+\<close>.
\<close>

definition dot_digits :: "string option \<Rightarrow> string option" where
  "dot_digits m = Option.bind (Option.bind m (lit CHR ''.'')) digits1"

definition two_segments :: "string \<Rightarrow> string option" where
  "two_segments s = dot_digits (digits1 s)"

definition three_segments :: "string \<Rightarrow> string option" where
  "three_segments s = dot_digits (two_segments s)"

definition four_segments :: "string \<Rightarrow> string option" where
  "four_segments s = dot_digits (three_segments s)"

definition is_roman :: "char \<Rightarrow> bool" where
  "is_roman c = (c \<in> set ''IVXLCDM'')"

text \<open>\<open>[IVXLCDM]+\<bsol>.\<close>\<close>

definition roman_dot :: "string \<Rightarrow> string option" where
  "roman_dot s = (case s of [] \<Rightarrow> None
                  | c # r \<Rightarrow> if is_roman c then lit CHR ''.'' (dropWhile is_roman r) else None)"

text \<open>\<open>[A-Za-z]\<bsol>.\<close>\<close>

definition letter_dot :: "string \<Rightarrow> string option" where
  "letter_dot s = (case s of [] \<Rightarrow> None
                   | c # r \<Rightarrow> if is_alpha c then lit CHR ''.'' r else None)"

text \<open>a prefix match followed by \<open>\<bsol>s+\<close>\<close>

definition then_space :: "string option \<Rightarrow> bool" where
  "then_space m = (case m of None \<Rightarrow> False
                   | Some r \<Rightarrow> (case r of [] \<Rightarrow> False | c # _ \<Rightarrow> is_space c))"

text \<open>
  \<open>heading_patterns['numbered']\<close>:
  \<^verbatim>\<open>^(?:\d+\.\d+\.\d+\.\d+|\d+\.\d+\.\d+|\d+\.\d+|\d+\.|[IVXLCDM]+\.|[A-Za-z]\.)\s+\<close>
\<close>

definition numbered_pattern :: "string \<Rightarrow> bool" where
  "numbered_pattern t =
     (then_space (four_segments t) \<or> then_space (three_segments t)
      \<or> then_space (two_segments t) \<or> then_space (digits_dot t) \<or> then_space (roman_dot t) \<or> then_space (letter_dot t))"

text \<open>
  A keyword alternative at the start of the text, followed by \<open>\<bsol>s+\<close> or by a word
  boundary \<open>\<bsol>b\<close>.  Every keyword ends in a word character, so the boundary holds at
  the end of the text or before a non-word character.
\<close>

definition keyword_then_space :: "string list \<Rightarrow> string \<Rightarrow> bool" where
  "keyword_then_space ks t =
     (\<exists>k \<in> set ks. starts_with t k \<and> then_space (Some (drop (length k) t)))"

definition keyword_then_boundary :: "string list \<Rightarrow> string \<Rightarrow> bool" where
  "keyword_then_boundary ks t =
     (\<exists>k \<in> set ks. starts_with t k \<and>
        (case drop (length k) t of [] \<Rightarrow> True | c # _ \<Rightarrow> \<not> is_word c))"

text \<open>
  The keyword tables of \<open>heading_patterns\<close>.  The alternatives written in other scripts
  or with accented letters cannot match an ASCII text and are not listed.
\<close>

definition appendix_keywords :: "string list" where
  "appendix_keywords = [''appendix'', ''annex'', ''anhang'', ''appendice'']"

definition chapter_keywords :: "string list" where
  "chapter_keywords = [''chapter'', ''chapitre'', ''kapitel'', ''capitolo'']"

definition section_keywords :: "string list" where
  "section_keywords = [''section'', ''section'', ''abschnitt'', ''sezione'']"

definition appendix_pattern :: "string \<Rightarrow> bool" where
  "appendix_pattern t = keyword_then_boundary appendix_keywords t"

definition chapter_pattern :: "string \<Rightarrow> bool" where
  "chapter_pattern t = keyword_then_space chapter_keywords t"

definition section_pattern :: "string \<Rightarrow> bool" where
  "section_pattern t = keyword_then_space section_keywords t"

section \<open>Levels of numbered headings\<close>

datatype level = H1 | H2 | H3 | H4

text \<open>
  The \<open>if/elif\<close> chain of source lines 496 to 509.  These patterns have no trailing
  \<open>\<bsol>s+\<close>, and the roman-numeral test comes before the single-letter test.
\<close>

definition numbered_level :: "string \<Rightarrow> level" where
  "numbered_level t =
     (if four_segments t \<noteq> None then H4
      else if three_segments t \<noteq> None then H3
      else if two_segments t \<noteq> None then H2
      else if digits_dot t \<noteq> None then H1
      else if roman_dot t \<noteq> None then H1
      else if letter_dot t \<noteq> None then H2
      else H1)"

section \<open>The non-heading filter\<close>

text \<open>\<open>re.search(r'[.,;:!?]\<bsol>s*$', text)\<close>\<close>

definition ends_in_punctuation :: "string \<Rightarrow> bool" where
  "ends_in_punctuation t =
     (case dropWhile is_space (rev t) of [] \<Rightarrow> False | c # _ \<Rightarrow> c \<in> set ''.,;:!?'')"

text \<open>
  The exact-match set \<open>skip_patterns\<close>; its members with non-ASCII letters cannot equal
  an ASCII text and are not listed.
\<close>

definition skip_patterns :: "string list" where
  "skip_patterns =
     [''page'', ''seite'', ''pagina'',
      ''copyright'', ''confidential'', ''draft'', ''preliminary'',
      ''table of contents'', ''inhaltsverzeichnis'', ''sommaire'',
      ''date'', ''remarks'', ''version'', ''revision'', ''author'', ''title'']"

text \<open>
  \<open>\<bsol>d{lo,hi}\<close> before something that is not a digit, and \<open>\<bsol>s+\<close> before something that is
  not whitespace.
\<close>

definition digits_between :: "nat \<Rightarrow> nat \<Rightarrow> string \<Rightarrow> string option" where
  "digits_between lo hi s =
     (let n = length (takeWhile is_digit s)
      in if lo \<le> n \<and> n \<le> hi then Some (dropWhile is_digit s) else None)"

definition spaces1 :: "string \<Rightarrow> string option" where
  "spaces1 s = (case s of [] \<Rightarrow> None
                | c # r \<Rightarrow> if is_space c then Some (dropWhile is_space r) else None)"

definition short_months :: "string list" where
  "short_months = [''jan'', ''feb'', ''mar'', ''apr'', ''may'', ''jun'',
                   ''jul'', ''aug'', ''sep'', ''oct'', ''nov'', ''dec'']"

definition long_months :: "string list" where
  "long_months = [''january'', ''february'', ''march'', ''april'', ''may'', ''june'', ''july'',
                  ''august'', ''september'', ''october'', ''november'', ''december'']"

text \<open>
  The three date patterns.  The texts they are applied to are stripped, so \<open>$\<close> is the
  end of the text.
  \<^verbatim>\<open>^\d{1,2}\s+(jan|feb|mar|apr|may|jun|jul|aug|sep|oct|nov|dec)\s+\d{4}$\<close>
\<close>

definition day_month_year :: "string \<Rightarrow> bool" where
  "day_month_year t =
     (case Option.bind (digits_between 1 2 t) spaces1 of None \<Rightarrow> False
      | Some r \<Rightarrow> (\<exists>k \<in> set short_months. starts_with r k \<and>
          Option.bind (spaces1 (drop (length k) r)) (digits_between 4 4) = Some []))"

text \<open>\<^verbatim>\<open>^\d{1,2}[/-]\d{1,2}[/-]\d{2,4}$\<close>\<close>

definition slash_or_dash :: "string \<Rightarrow> string option" where
  "slash_or_dash s = (case s of [] \<Rightarrow> None
                      | c # r \<Rightarrow> if c = CHR ''/'' \<or> c = CHR ''-'' then Some r else None)"

definition numeric_date :: "string \<Rightarrow> bool" where
  "numeric_date t =
     (Option.bind (Option.bind (Option.bind (Option.bind (digits_between 1 2 t)
        slash_or_dash) (digits_between 1 2)) slash_or_dash) (digits_between 2 4) = Some [])"

text \<open>\<^verbatim>\<open>^(january|...|december)\s+\d{1,2},?\s+\d{4}$\<close>\<close>

definition optional_comma :: "string \<Rightarrow> string option" where
  "optional_comma s = (case s of [] \<Rightarrow> Some []
                       | c # r \<Rightarrow> if c = CHR '','' then Some r else Some (c # r))"

definition month_day_year :: "string \<Rightarrow> bool" where
  "month_day_year t =
     (\<exists>k \<in> set long_months. starts_with t k \<and>
        Option.bind (Option.bind (Option.bind (Option.bind (spaces1 (drop (length k) t))
          (digits_between 1 2)) optional_comma) spaces1) (digits_between 4 4) = Some [])"

definition structural_keywords :: "string list" where
  "structural_keywords =
     [''summary'', ''background'', ''introduction'', ''conclusion'', ''appendix'']"

text \<open>\<^verbatim>\<open>^[A-Z]{2,}\s*$\<close>\<close>

definition all_caps_token :: "string \<Rightarrow> bool" where
  "all_caps_token t =
     (length (takeWhile is_upper t) \<ge> 2 \<and> dropWhile is_space (dropWhile is_upper t) = [])"

text \<open>\<open>len(re.findall(r'[^\<bsol>w\<bsol>s]', text))\<close>\<close>

definition symbol_count :: "string \<Rightarrow> nat" where
  "symbol_count t = length (filter (\<lambda>c. \<not> is_word c \<and> \<not> is_space c) t)"

text \<open>
  The checks of source lines 294 to 341 on the stripped text of a line, in the order
  of the source; each one that holds is a \<open>continue\<close>.  The result names the first
  check that discards the line.
\<close>

datatype discard_reason =
    Empty_Or_One_Char | Too_Many_Words | Sentence_Punctuation | Fewer_Than_Two_Words
  | Boilerplate | Date_Like | Single_Word_Label | All_Caps_Token | Too_Many_Symbols

definition non_heading :: "string \<Rightarrow> discard_reason option" where
  "non_heading t =
     (let count = length (split t); text_lower = strip (lower t)
      in if t = [] \<or> length t < 2 then Some Empty_Or_One_Char
         else if count > 15 then Some Too_Many_Words
         else if ends_in_punctuation t then Some Sentence_Punctuation
         else if count < 2 then Some Fewer_Than_Two_Words
         else if text_lower \<in> set skip_patterns then Some Boilerplate
         else if day_month_year text_lower \<or> numeric_date t \<or> month_day_year text_lower
           then Some Date_Like
         else if count = 1 \<and> length t < 12 \<and> digits_dot t = None
                 \<and> \<not> (\<exists>k \<in> set structural_keywords. contains text_lower k)
           then Some Single_Word_Label
         else if all_caps_token t then Some All_Caps_Token
         else if rat_of_nat (symbol_count t) > rat_of_nat (length t) * 0.3
           then Some Too_Many_Symbols
         else None)"

section \<open>Heading classification: score and threshold\<close>

text \<open>
  The boolean signals that \<open>_extract_headings\<close> derives for a line that survived the
  non-heading filter, under the names of its local variables.
\<close>

record signals =
  word_count :: nat
  is_bold :: bool
  is_medium :: bool
  size_ratio :: rat
  is_larger :: bool
  is_much_larger :: bool
  is_numbered :: bool
  is_appendix :: bool
  is_chapter :: bool
  is_section :: bool
  is_all_caps :: bool
  is_title_case :: bool
  is_short :: bool
  is_centered :: bool
  is_left_aligned :: bool
  has_space_before :: bool
  is_top_size :: bool
  is_second_size :: bool
  is_third_size :: bool

text \<open>The composite score (source lines 384 to 416).\<close>

definition score :: "signals \<Rightarrow> int" where
  "score g =
     (if is_much_larger g then 6 else if is_larger g then 4
      else if size_ratio g > 1.05 then 2 else 0)
   + (if is_bold g then 4 else if is_medium g then 2 else 0)
   + (if is_numbered g then 6 else 0)
   + (if is_chapter g then 5 else 0)
   + (if is_section g then 4 else 0)
   + (if is_appendix g then 5 else 0)
   + (if is_all_caps g \<and> word_count g \<le> 5 then 3 else if is_title_case g then 2 else 0)
   + (if is_centered g then 1 else if is_left_aligned g then 1 else 0)
   + (if has_space_before g then 3 else 0)
   + (if is_short g \<and> word_count g \<ge> 2 then 2 else 0)
   + (if is_top_size g then 4 else if is_second_size g then 3
      else if is_third_size g then 2 else 0)"

text \<open>
  The threshold (source lines 419 to 431): an \<open>if/elif/elif\<close> chain that lowers the base
  value, followed by a separate \<open>if\<close> that overwrites whatever the chain chose.
\<close>

definition min_threshold :: "signals \<Rightarrow> int" where
  "min_threshold g =
     (let t0 = 8;
          t1 = (if is_numbered g \<or> is_chapter g \<or> is_appendix g then 6
                else if is_much_larger g \<and> is_bold g then 7
                else if word_count g \<le> 5 \<and> is_larger g then 7
                else t0)
      in if word_count g > 10 \<or> \<not> is_larger g then 10 else t1)"

definition accepted :: "signals \<Rightarrow> bool" where
  "accepted g = (score g \<ge> min_threshold g)"

section \<open>The document as the layout collaborator delivers it\<close>

text \<open>
  A bounding box is \<open>(x0, y0, x1, y1)\<close>; \<open>bbox1\<close> is \<open>bbox[1]\<close>, the top edge, and
  \<open>bbox3\<close> is \<open>bbox[3]\<close>, the bottom edge.
\<close>

type_synonym bbox = "rat \<times> rat \<times> rat \<times> rat"

definition bbox0 :: "bbox \<Rightarrow> rat" where "bbox0 b = fst b"
definition bbox1 :: "bbox \<Rightarrow> rat" where "bbox1 b = fst (snd b)"
definition bbox2 :: "bbox \<Rightarrow> rat" where "bbox2 b = fst (snd (snd b))"
definition bbox3 :: "bbox \<Rightarrow> rat" where "bbox3 b = snd (snd (snd b))"

record span =
  span_text :: string
  span_font :: string
  span_size :: rat

record line =
  line_bbox :: bbox
  line_spans :: "span list"

text \<open>A block without a \<open>lines\<close> entry (an image block) has \<open>block_lines = []\<close>.\<close>

record block =
  block_bbox :: bbox
  block_lines :: "line list"

text \<open>
  The exceptions: a division by zero in the engine's own arithmetic, and an exception
  raised inside a call of the layout collaborator (for an encrypted file,
  \<open>ValueError: document closed or encrypted\<close>), each with its message, which is what
  \<open>str(e)\<close> gives.
\<close>

datatype exn = ZeroDivisionError string | CollaboratorError string

definition str_of_exn :: "exn \<Rightarrow> string" where
  "str_of_exn e = (case e of ZeroDivisionError m \<Rightarrow> m | CollaboratorError m \<Rightarrow> m)"

text \<open>
  \<open>page_blocks\<close> is \<open>page.get_text("dict")["blocks"]\<close>, used by the style profiler and
  the title extractor; \<open>page_blocks_sorted\<close> is what the same call returns with
  \<open>sort=True\<close>, used by the heading classifier.  \<open>page_error\<close> is the exception that
  the collaborator raises when the page is loaded and its text is read, if it raises
  one; the other fields are what its calls return on a page that can be read.
\<close>

record page =
  page_height :: rat
  page_width :: rat
  page_blocks :: "block list"
  page_blocks_sorted :: "block list"
  page_error :: "exn option"

text \<open>
  \<open>metadata_title\<close> is \<open>None\<close> when \<open>doc.metadata\<close> has no \<open>title\<close> key.  \<open>len_error\<close>
  is the exception that \<open>len(doc)\<close> raises, if it raises one.
\<close>

record doc =
  doc_pages :: "page list"
  metadata_title :: "string option"
  len_error :: "exn option"

text \<open>\<open>round(x, 2)\<close>, ties to even.\<close>

definition round_half_even :: "rat \<Rightarrow> int" where
  "round_half_even q =
     (let f = \<lfloor>q\<rfloor>; d = q - of_int f
      in if d < 1 / 2 then f else if d > 1 / 2 then f + 1
         else if even f then f else f + 1)"

definition round2 :: "rat \<Rightarrow> rat" where
  "round2 x = of_int (round_half_even (x * 100)) / 100"

record heading_sizes =
  largest :: rat
  second_largest :: rat
  third_largest :: rat

record size_stats =
  st_count :: nat
  st_bold_count :: nat
  st_fonts :: "(string \<times> nat) list"
  st_total_chars :: nat

text \<open>
  The style profile.  The dictionary \<open>font_size_stats\<close> and the font counters are
  association lists in insertion order, which is the order Python iterates them in.
\<close>

record style_profile =
  body_size :: rat
  body_font :: string
  font_size_stats :: "(rat \<times> size_stats) list"
  heading_sizes :: heading_sizes
  sorted_sizes :: "rat list"

section \<open>Heading candidates\<close>

record heading_candidate =
  h_text :: string
  h_size :: rat
  h_font :: string
  h_page :: nat
  h_y :: rat
  h_score :: int
  h_is_numbered :: bool
  h_is_appendix :: bool
  h_is_chapter :: bool
  h_is_section :: bool
  h_is_bold :: bool
  h_is_all_caps :: bool
  h_size_ratio :: rat

text \<open>\<open>any(keyword in font_lower for keyword in ks)\<close>\<close>

definition font_has :: "string list \<Rightarrow> string \<Rightarrow> bool" where
  "font_has ks f = (\<exists>k \<in> set ks. contains (lower f) k)"

text \<open>
  The signals of source lines 344 to 381 for a line with stripped text \<open>t\<close> and first
  span \<open>s\<close>; \<open>ratio\<close> is \<open>span['size'] / body_size\<close>, computed by the caller, who also
  raises when the divisor is zero.
\<close>

definition line_signals ::
  "style_profile \<Rightarrow> page \<Rightarrow> block option \<Rightarrow> block \<Rightarrow> line \<Rightarrow> span \<Rightarrow> string \<Rightarrow> rat \<Rightarrow> signals" where
  "line_signals sp pg previous_block blk li s t ratio =
     (let count = length (split t);
          line_center = (bbox0 (line_bbox li) + bbox2 (line_bbox li)) / 2;
          page_center = page_width pg / 2;
          hs = heading_sizes sp
      in \<lparr> word_count = count,
           is_bold = font_has [''bold'', ''heavy'', ''black'', ''demi''] (span_font s),
           is_medium = font_has [''medium'', ''semi''] (span_font s),
           size_ratio = ratio,
           is_larger = (ratio > 1.1),
           is_much_larger = (ratio > 1.5),
           is_numbered = numbered_pattern t,
           is_appendix = appendix_pattern (lower t),
           is_chapter = chapter_pattern (lower t),
           is_section = section_pattern (lower t),
           is_all_caps = (isupper t \<and> count \<le> 10),
           is_title_case = istitle t,
           is_short = (count \<le> 15),
           is_centered = (\<bar>line_center - page_center\<bar> < 50),
           is_left_aligned = (bbox0 (line_bbox li) < page_width pg * 0.2),
           has_space_before =
             (case previous_block of None \<Rightarrow> False
              | Some pb \<Rightarrow> bbox1 (block_bbox blk) - bbox3 (block_bbox pb) > body_size sp * 1.2),
           is_top_size = (\<bar>span_size s - largest hs\<bar> < 1),
           is_second_size = (\<bar>span_size s - second_largest hs\<bar> < 1),
           is_third_size = (\<bar>span_size s - third_largest hs\<bar> < 1) \<rparr>)"

text \<open>
  One iteration of the loop over the lines of a block (source lines 287 to 448): the
  candidates it appends, none or one, or the exception it raises.  The dictionary
  \<open>font_size_profiles\<close> that the source updates next is never read and is left out.
\<close>

definition classify_line ::
  "style_profile \<Rightarrow> page \<Rightarrow> nat \<Rightarrow> block option \<Rightarrow> block \<Rightarrow> line \<Rightarrow> exn + heading_candidate list" where
  "classify_line sp pg page_num previous_block blk li =
     (case line_spans li of [] \<Rightarrow> Inr []
      | s # _ \<Rightarrow>
         (let t = strip (concat (map span_text (line_spans li)))
          in if non_heading t \<noteq> None then Inr []
             else if body_size sp = 0 then Inl (ZeroDivisionError ''float division by zero'')
             else (let g = line_signals sp pg previous_block blk li s t (span_size s / body_size sp)
                   in if score g \<ge> min_threshold g
                      then Inr [\<lparr> h_text = t, h_size = span_size s, h_font = span_font s,
                                  h_page = page_num, h_y = bbox1 (line_bbox li),
                                  h_score = score g, h_is_numbered = is_numbered g,
                                  h_is_appendix = is_appendix g, h_is_chapter = is_chapter g,
                                  h_is_section = is_section g, h_is_bold = is_bold g,
                                  h_is_all_caps = is_all_caps g, h_size_ratio = size_ratio g \<rparr>]
                      else Inr [])))"

fun scan_lines ::
  "style_profile \<Rightarrow> page \<Rightarrow> nat \<Rightarrow> block option \<Rightarrow> block \<Rightarrow> line list \<Rightarrow> exn + heading_candidate list" where
  "scan_lines sp pg page_num previous_block blk [] = Inr []"
| "scan_lines sp pg page_num previous_block blk (li # lis) =
     (case classify_line sp pg page_num previous_block blk li of Inl e \<Rightarrow> Inl e
      | Inr cs \<Rightarrow>
         (case scan_lines sp pg page_num previous_block blk lis of Inl e \<Rightarrow> Inl e
          | Inr cs' \<Rightarrow> Inr (cs @ cs')))"

text \<open>
  The loop over the blocks of a page.  A block in the top or bottom 8 percent of the
  page is skipped by a \<open>continue\<close>, which also skips the assignment to
  \<open>previous_block\<close> at the end of the loop body.
\<close>

definition in_header_or_footer :: "page \<Rightarrow> block \<Rightarrow> bool" where
  "in_header_or_footer pg blk =
     (bbox1 (block_bbox blk) < page_height pg * 0.08
      \<or> bbox3 (block_bbox blk) > page_height pg * 0.92)"

fun scan_blocks ::
  "style_profile \<Rightarrow> page \<Rightarrow> nat \<Rightarrow> block option \<Rightarrow> block list \<Rightarrow> exn + heading_candidate list" where
  "scan_blocks sp pg page_num previous_block [] = Inr []"
| "scan_blocks sp pg page_num previous_block (blk # blks) =
     (if in_header_or_footer pg blk then scan_blocks sp pg page_num previous_block blks
      else (case scan_lines sp pg page_num previous_block blk (block_lines blk) of
              Inl e \<Rightarrow> Inl e
            | Inr cs \<Rightarrow>
               (case scan_blocks sp pg page_num (Some blk) blks of Inl e \<Rightarrow> Inl e
                | Inr cs' \<Rightarrow> Inr (cs @ cs'))))"

text \<open>The loop over the pages, from the page with index \<open>page_num\<close> on.\<close>

fun scan_pages :: "style_profile \<Rightarrow> nat \<Rightarrow> page list \<Rightarrow> exn + heading_candidate list" where
  "scan_pages sp page_num [] = Inr []"
| "scan_pages sp page_num (pg # pgs) =
     (case scan_blocks sp pg page_num None (page_blocks_sorted pg) of Inl e \<Rightarrow> Inl e
      | Inr cs \<Rightarrow>
         (case scan_pages sp (Suc page_num) pgs of Inl e \<Rightarrow> Inl e
          | Inr cs' \<Rightarrow> Inr (cs @ cs')))"

text \<open>\<open>for page_num in range(1, len(doc))\<close>\<close>

definition heading_candidates :: "doc \<Rightarrow> style_profile \<Rightarrow> exn + heading_candidate list" where
  "heading_candidates d sp = scan_pages sp 1 (drop 1 (doc_pages d))"

section \<open>The outline\<close>

record outline_entry =
  entry_level :: level
  entry_text :: string
  entry_page :: nat

text \<open>
  Special headings (chapters and appendices) and numbered headings, each stream sorted
  by \<open>(page, y)\<close> with Python's stable sort and emitted with the raw text of the line
  (source lines 480 to 515).
\<close>

definition special_headings :: "heading_candidate list \<Rightarrow> heading_candidate list" where
  "special_headings cands =
     sort_key (\<lambda>h. (h_page h, h_y h)) (filter (\<lambda>h. h_is_chapter h \<or> h_is_appendix h) cands)"

definition special_entries :: "heading_candidate list \<Rightarrow> outline_entry list" where
  "special_entries cands =
     map (\<lambda>h. \<lparr> entry_level = H1, entry_text = h_text h, entry_page = h_page h \<rparr>)
       (special_headings cands)"

definition numbered_headings :: "heading_candidate list \<Rightarrow> heading_candidate list" where
  "numbered_headings cands =
     sort_key (\<lambda>h. (h_page h, h_y h))
       (filter (\<lambda>h. h_is_numbered h \<and> \<not> h_is_chapter h \<and> \<not> h_is_appendix h) cands)"

definition numbered_entries :: "heading_candidate list \<Rightarrow> outline_entry list" where
  "numbered_entries cands =
     map (\<lambda>h. \<lparr> entry_level = numbered_level (h_text h), entry_text = h_text h,
                 entry_page = h_page h \<rparr>)
       (numbered_headings cands)"

definition unnumbered_headings :: "heading_candidate list \<Rightarrow> heading_candidate list" where
  "unnumbered_headings cands =
     filter (\<lambda>h. \<not> h_is_numbered h \<and> \<not> h_is_appendix h \<and> \<not> h_is_chapter h) cands"

subsection \<open>Size clusters of the unnumbered headings\<close>

text \<open>
  \<open>unique_sizes = list(set(round(h['size'], 2) for h in unnumbered_headings))\<close> followed
  by \<open>unique_sizes.sort(reverse=True)\<close>.  The order in which Python enumerates a set is
  not fixed by the language; \<open>set_order\<close> stands for it.  It is applied to the distinct
  rounded sizes and is expected to return them in some order.
\<close>

definition unique_sizes :: "(rat list \<Rightarrow> rat list) \<Rightarrow> heading_candidate list \<Rightarrow> rat list" where
  "unique_sizes set_order unnumbered =
     rev (sort (set_order (remdups (map (\<lambda>h. round2 (h_size h)) unnumbered))))"

record size_analysis =
  sa_count :: nat
  sa_avg_score :: rat
  sa_bold_ratio :: rat
  sa_caps_ratio :: rat
  sa_size_ratio :: rat
  sa_headings :: "heading_candidate list"

text \<open>
  One entry of \<open>size_analysis\<close> (source lines 534 to 543).  The divisions by
  \<open>len(headings_with_size)\<close> and by \<open>body_size\<close> raise when the divisor is zero.
\<close>

definition analyse_size :: "rat \<Rightarrow> heading_candidate list \<Rightarrow> rat \<Rightarrow> exn + size_analysis" where
  "analyse_size body unnumbered sz =
     (let headings_with_size = filter (\<lambda>h. \<bar>h_size h - sz\<bar> < 0.5) unnumbered;
          n = length headings_with_size
      in if n = 0 then Inl (ZeroDivisionError ''division by zero'')
         else if body = 0 then Inl (ZeroDivisionError ''float division by zero'')
         else Inr \<lparr> sa_count = n,
                    sa_avg_score = of_int (sum_list (map h_score headings_with_size)) / of_nat n,
                    sa_bold_ratio = of_nat (length (filter h_is_bold headings_with_size)) / of_nat n,
                    sa_caps_ratio = of_nat (length (filter h_is_all_caps headings_with_size)) / of_nat n,
                    sa_size_ratio = sz / body,
                    sa_headings = headings_with_size \<rparr>)"

fun analyse_sizes ::
  "rat \<Rightarrow> heading_candidate list \<Rightarrow> rat list \<Rightarrow> exn + (rat \<times> size_analysis) list" where
  "analyse_sizes body unnumbered [] = Inr []"
| "analyse_sizes body unnumbered (sz # szs) =
     (case analyse_size body unnumbered sz of Inl e \<Rightarrow> Inl e
      | Inr a \<Rightarrow>
         (case analyse_sizes body unnumbered szs of Inl e \<Rightarrow> Inl e
          | Inr as \<Rightarrow> Inr ((sz, a) # as)))"

definition improved_composite_score :: "size_analysis \<Rightarrow> rat" where
  "improved_composite_score a =
     sa_size_ratio a * 0.6 + (sa_bold_ratio a + sa_caps_ratio a) * 0.3
     + (sa_avg_score a / 10) * 0.1"

text \<open>
  \<open>sorted(unique_sizes, key=improved_composite_score, reverse=True)\<close>: descending by
  the key, equal keys in their original order.
\<close>

definition rank_sizes :: "(rat \<times> size_analysis) list \<Rightarrow> (rat \<times> size_analysis) list" where
  "rank_sizes as = sort_key (\<lambda>p. - improved_composite_score (snd p)) as"

text \<open>\<open>level_thresholds\<close>, iterated in insertion order.\<close>

definition levels_in_order :: "level list" where
  "levels_in_order = [H1, H2, H3, H4]"

fun min_size_ratio :: "level \<Rightarrow> rat" where
  "min_size_ratio H1 = 1.6"
| "min_size_ratio H2 = 1.4"
| "min_size_ratio H3 = 1.2"
| "min_size_ratio H4 = 1.1"

fun min_score :: "level \<Rightarrow> rat" where
  "min_score H1 = 10"
| "min_score H2 = 8"
| "min_score H3 = 7"
| "min_score H4 = 6"

text \<open>
  The level of one cluster (source lines 570 to 585): the first unused level whose
  gate the cluster passes, else the first unused level, else none.
\<close>

definition gated_level :: "level list \<Rightarrow> size_analysis \<Rightarrow> level option" where
  "gated_level assigned_levels a =
     find (\<lambda>lv. lv \<notin> set assigned_levels \<and> sa_size_ratio a \<ge> min_size_ratio lv
                 \<and> sa_avg_score a \<ge> min_score lv) levels_in_order"

definition fallback_level :: "level list \<Rightarrow> level option" where
  "fallback_level assigned_levels = find (\<lambda>lv. lv \<notin> set assigned_levels) levels_in_order"

definition choose_level :: "level list \<Rightarrow> size_analysis \<Rightarrow> level option" where
  "choose_level assigned_levels a =
     (case gated_level assigned_levels a of Some lv \<Rightarrow> Some lv
      | None \<Rightarrow> fallback_level assigned_levels)"

text \<open>
  \<open>for check_size in unique_sizes: if abs(check_size - size) < 1.0:
  size_level_map[check_size] = assigned_level\<close>.  The dictionary is an association list
  in insertion order; an existing key keeps its place.
\<close>

definition map_similar_sizes ::
  "rat list \<Rightarrow> rat \<Rightarrow> level \<Rightarrow> (rat \<times> level) list \<Rightarrow> (rat \<times> level) list" where
  "map_similar_sizes us sz lv m =
     fold (\<lambda>check_size m'. if \<bar>check_size - sz\<bar> < 1 then AList.update check_size lv m' else m')
       us m"

text \<open>
  The loop over the ranked clusters (source lines 565 to 591).  A cluster that gets no
  level changes nothing.
\<close>

fun assign_levels ::
  "rat list \<Rightarrow> level list \<Rightarrow> (rat \<times> level) list \<Rightarrow> (rat \<times> size_analysis) list
     \<Rightarrow> (rat \<times> level) list" where
  "assign_levels us assigned_levels m [] = m"
| "assign_levels us assigned_levels m (p # ps) =
     (case choose_level assigned_levels (snd p) of
        None \<Rightarrow> assign_levels us assigned_levels m ps
      | Some lv \<Rightarrow>
          assign_levels us (lv # assigned_levels) (map_similar_sizes us (fst p) lv m) ps)"

definition size_level_map ::
  "(rat list \<Rightarrow> rat list) \<Rightarrow> rat \<Rightarrow> heading_candidate list \<Rightarrow> exn + (rat \<times> level) list" where
  "size_level_map set_order body unnumbered =
     (let us = unique_sizes set_order unnumbered
      in case analyse_sizes body unnumbered us of Inl e \<Rightarrow> Inl e
         | Inr as \<Rightarrow> Inr (assign_levels us [] [] (rank_sizes as)))"

subsection \<open>Text cleanup and the final filter of unnumbered headings\<close>

text \<open>
  \<^verbatim>\<open>\s*[\._]{2,}\s*(\d+|[ivx]+)\s*$\<close>: whether the whole of \<open>s\<close> is such a tail.
\<close>

definition is_leader :: "char \<Rightarrow> bool" where
  "is_leader c = (c = CHR ''.'' \<or> c = CHR ''_'')"

definition is_ivx :: "char \<Rightarrow> bool" where
  "is_ivx c = (c = CHR ''i'' \<or> c = CHR ''v'' \<or> c = CHR ''x'')"

definition toc_tail :: "string \<Rightarrow> bool" where
  "toc_tail s =
     (let s1 = dropWhile is_space s;
          s2 = dropWhile is_space (dropWhile is_leader s1)
      in length (takeWhile is_leader s1) \<ge> 2 \<and>
         (case s2 of [] \<Rightarrow> False
          | c # _ \<Rightarrow>
             if is_digit c then dropWhile is_space (dropWhile is_digit s2) = []
             else if is_ivx c then dropWhile is_space (dropWhile is_ivx s2) = []
             else False))"

text \<open>
  \<open>re.sub\<close> of that pattern by the empty string: the leftmost position from which the
  rest of the text is such a tail is where the text is cut.
\<close>

fun strip_toc_tail :: "string \<Rightarrow> string" where
  "strip_toc_tail [] = []"
| "strip_toc_tail (c # cs) = (if toc_tail (c # cs) then [] else c # strip_toc_tail cs)"

text \<open>\<open>re.sub(r'\<bsol>s+', ' ', text)\<close>: each maximal run of whitespace becomes one blank.\<close>

fun collapse_from :: "bool \<Rightarrow> string \<Rightarrow> string" where
  "collapse_from in_run [] = []"
| "collapse_from in_run (c # cs) =
     (if is_space c
      then (if in_run then collapse_from True cs else CHR '' '' # collapse_from True cs)
      else c # collapse_from False cs)"

definition collapse_whitespace :: "string \<Rightarrow> string" where
  "collapse_whitespace s = collapse_from False s"

text \<open>
  The class \<^verbatim>\<open>[\x00-\x08\x0b\x0c\x0e-\x1f\x7f-\x84\x86-\x9f]\<close> on ASCII characters.
\<close>

definition is_control :: "char \<Rightarrow> bool" where
  "is_control c =
     (let n = (of_char c :: nat)
      in n \<le> 8 \<or> n = 11 \<or> n = 12 \<or> (14 \<le> n \<and> n \<le> 31) \<or> n = 127)"

definition remove_control :: "string \<Rightarrow> string" where
  "remove_control s = filter (\<lambda>c. \<not> is_control c) s"

text \<open>\<^verbatim>\<open>re.sub(r'^[\s\._]+|[\s\._]+$', '', text)\<close>\<close>

definition is_edge :: "char \<Rightarrow> bool" where
  "is_edge c = (is_space c \<or> is_leader c)"

definition strip_edges :: "string \<Rightarrow> string" where
  "strip_edges s = rev (dropWhile is_edge (rev (dropWhile is_edge s)))"

text \<open>Source lines 607 to 614.\<close>

definition clean_heading_text :: "string \<Rightarrow> string" where
  "clean_heading_text t =
     strip_edges (remove_control (collapse_whitespace (strip_toc_tail (strip t))))"

text \<open>
  \<open>min(xs, key=f, default=None)\<close> and \<open>max(xs, key=f)\<close>: the first element with the
  least, respectively the greatest, key.
\<close>

fun min_by :: "('a \<Rightarrow> 'b::linorder) \<Rightarrow> 'a list \<Rightarrow> 'a option" where
  "min_by f [] = None"
| "min_by f (x # xs) =
     (case min_by f xs of None \<Rightarrow> Some x
      | Some y \<Rightarrow> if f y < f x then Some y else Some x)"

fun max_by :: "('a \<Rightarrow> 'b::linorder) \<Rightarrow> 'a list \<Rightarrow> 'a option" where
  "max_by f [] = None"
| "max_by f (x # xs) =
     (case max_by f xs of None \<Rightarrow> Some x
      | Some y \<Rightarrow> if f x < f y then Some y else Some x)"

definition toc_words :: "string list" where
  "toc_words = [''table of contents'', ''contents'', ''index'']"

text \<open>
  One iteration of the loop of source lines 595 to 626: the entries it appends, none
  or one.  \<open>if closest_size and ...\<close> is false for no key and for the key \<open>0.0\<close>.
\<close>

definition unnumbered_entry ::
  "(rat \<times> level) list \<Rightarrow> string \<Rightarrow> heading_candidate \<Rightarrow> outline_entry list" where
  "unnumbered_entry m title h =
     (let size_key = round2 (h_size h)
      in case min_by (\<lambda>p. \<bar>fst p - size_key\<bar>) m of None \<Rightarrow> []
         | Some closest \<Rightarrow>
            if fst closest \<noteq> 0 \<and> \<bar>fst closest - size_key\<bar> < 2
            then (let clean_text = clean_heading_text (h_text h)
                  in if clean_text \<noteq> [] \<and> length clean_text > 2
                        \<and> lower clean_text \<noteq> lower title
                        \<and> lower clean_text \<notin> set toc_words
                     then [\<lparr> entry_level = snd closest, entry_text = clean_text,
                              entry_page = h_page h \<rparr>]
                     else [])
            else [])"

definition unnumbered_entries ::
  "(rat list \<Rightarrow> rat list) \<Rightarrow> rat \<Rightarrow> string \<Rightarrow> heading_candidate list \<Rightarrow> exn + outline_entry list" where
  "unnumbered_entries set_order body title cands =
     (let unnumbered = unnumbered_headings cands
      in if unnumbered = [] then Inr []
         else (case size_level_map set_order body unnumbered of Inl e \<Rightarrow> Inl e
               | Inr m \<Rightarrow>
                  Inr (concat (map (unnumbered_entry m title)
                         (sort_key (\<lambda>h. (h_page h, h_y h)) unnumbered)))))"

subsection \<open>Final sort and removal of duplicates\<close>

fun remove_duplicates :: "(string \<times> nat) list \<Rightarrow> outline_entry list \<Rightarrow> outline_entry list" where
  "remove_duplicates seen [] = []"
| "remove_duplicates seen (item # items) =
     (let key = (lower (entry_text item), entry_page item)
      in if key \<notin> set seen then item # remove_duplicates (key # seen) items
         else remove_duplicates seen items)"

definition assemble_outline :: "outline_entry list \<Rightarrow> outline_entry list" where
  "assemble_outline outline =
     remove_duplicates [] (sort_key (\<lambda>e. (entry_page e, entry_text e)) outline)"

text \<open>\<open>_extract_headings(doc, style_profile, title)\<close>\<close>

definition extract_headings ::
  "(rat list \<Rightarrow> rat list) \<Rightarrow> doc \<Rightarrow> style_profile \<Rightarrow> string \<Rightarrow> exn + outline_entry list" where
  "extract_headings set_order d sp title =
     (case heading_candidates d sp of Inl e \<Rightarrow> Inl e
      | Inr cands \<Rightarrow>
         if cands = [] then Inr []
         else (case unnumbered_entries set_order (body_size sp) title cands of Inl e \<Rightarrow> Inl e
               | Inr leveled \<Rightarrow>
                  Inr (assemble_outline
                         (special_entries cands @ numbered_entries cands @ leveled))))"

section \<open>The style profiler\<close>

text \<open>The spans of all lines of all blocks of all pages, in document order.\<close>

definition all_spans :: "doc \<Rightarrow> span list" where
  "all_spans d =
     concat (map (\<lambda>pg. concat (map (\<lambda>b. concat (map line_spans (block_lines b)))
                                  (page_blocks pg)))
               (doc_pages d))"

text \<open>\<open>counter[k] += n\<close> on a \<open>Counter\<close> kept in insertion order.\<close>

definition add_count :: "string \<Rightarrow> nat \<Rightarrow> (string \<times> nat) list \<Rightarrow> (string \<times> nat) list" where
  "add_count k n m = AList.update k ((case map_of m k of None \<Rightarrow> 0 | Some c \<Rightarrow> c) + n) m"

definition empty_stats :: size_stats where
  "empty_stats = \<lparr> st_count = 0, st_bold_count = 0, st_fonts = [], st_total_chars = 0 \<rparr>"

text \<open>One iteration of the loop of source lines 22 to 41.\<close>

definition add_span :: "span \<Rightarrow> (rat \<times> size_stats) list \<Rightarrow> (rat \<times> size_stats) list" where
  "add_span s m =
     (let sz = round2 (span_size s);
          st = (case map_of m sz of None \<Rightarrow> empty_stats | Some st \<Rightarrow> st)
      in AList.update sz
           \<lparr> st_count = st_count st + 1,
             st_bold_count = st_bold_count st
               + (if font_has [''bold'', ''heavy'', ''black'', ''demi''] (span_font s) then 1 else 0),
             st_fonts = add_count (span_font s) 1 (st_fonts st),
             st_total_chars = st_total_chars st + length (strip (span_text s)) \<rparr> m)"

text \<open>\<open>sorted_sizes[i] if len(sorted_sizes) > i else body_size\<close>\<close>

definition nth_or :: "rat list \<Rightarrow> nat \<Rightarrow> rat \<Rightarrow> rat" where
  "nth_or xs i d = (if i < length xs then xs ! i else d)"

text \<open>
  The loop of source lines 12 to 16 reads every page before anything else is computed;
  it is left by the exception of the first page that cannot be read.
\<close>

fun first_page_error :: "page list \<Rightarrow> exn option" where
  "first_page_error [] = None"
| "first_page_error (pg # pgs) =
     (case page_error pg of Some x \<Rightarrow> Some x | None \<Rightarrow> first_page_error pgs)"

text \<open>
  \<open>_profile_document_styles(doc)\<close>: the exception of a page that cannot be read, else
  \<open>None\<close> when the document has no span, else the profile.
\<close>

definition profile_document_styles :: "doc \<Rightarrow> exn + style_profile option" where
  "profile_document_styles d =
     (case first_page_error (doc_pages d) of Some x \<Rightarrow> Inl x
      | None \<Rightarrow>
         Inr (let spans = all_spans d
              in if spans = [] then None
                 else (let stats = fold add_span spans [];
                           body_candidates = filter (\<lambda>p. st_total_chars (snd p) > 100) stats;
                           body = (case max_by (\<lambda>p. st_count (snd p)) body_candidates of
                                     Some p \<Rightarrow> fst p
                                   | None \<Rightarrow>
                                      (case max_by (\<lambda>p. st_count (snd p)) stats of
                                         Some p \<Rightarrow> fst p | None \<Rightarrow> 10));
                           all_fonts = fold (\<lambda>p acc. fold (\<lambda>q. add_count (fst q) (snd q))
                                                         (st_fonts (snd p)) acc) stats [];
                           sizes = rev (sort (map fst stats))
                       in Some \<lparr> body_size = body,
                                 body_font = (case max_by snd all_fonts of Some q \<Rightarrow> fst q
                                              | None \<Rightarrow> ''Unknown''),
                                 font_size_stats = stats,
                                 heading_sizes = \<lparr> largest = nth_or sizes 0 body,
                                                   second_largest = nth_or sizes 1 body,
                                                   third_largest = nth_or sizes 2 body \<rparr>,
                                 sorted_sizes = sizes \<rparr>)))"

section \<open>The title extractor\<close>

text \<open>\<open>' '.join(words)\<close>\<close>

fun join_words :: "string list \<Rightarrow> string" where
  "join_words [] = []"
| "join_words [w] = w"
| "join_words (w # v # ws) = w @ CHR '' '' # join_words (v # ws)"

text \<open>\<open>_is_repetitive_text(text)\<close>\<close>

definition is_repetitive_text :: "string \<Rightarrow> bool" where
  "is_repetitive_text t =
     (let ws = split (lower t)
      in if length ws < 3 then False
         else (\<exists>w \<in> set ws. length w > 2 \<and> count_list ws w > 3))"

text \<open>
  \<open>_clean_repetitive_title(title)\<close>.  \<open>p2\<close> and \<open>p1\<close> are \<open>words[i-2]\<close> and
  \<open>words[i-1]\<close>, where they exist.
\<close>

fun clean_words :: "string option \<Rightarrow> string option \<Rightarrow> string list \<Rightarrow> string list \<Rightarrow> string list" where
  "clean_words p2 p1 cleaned_words [] = cleaned_words"
| "clean_words p2 p1 cleaned_words (w # ws) =
     (if (case p1 of None \<Rightarrow> False | Some a \<Rightarrow> lower w = lower a)
      then clean_words p1 (Some w) cleaned_words ws
      else if (case (p2, p1) of
                 (Some b, Some a) \<Rightarrow>
                   lower w = lower b \<and> length cleaned_words > 1
                   \<and> lower (last cleaned_words) = lower a
               | _ \<Rightarrow> False)
      then clean_words p1 (Some w) cleaned_words ws
      else clean_words p1 (Some w) (cleaned_words @ [w]) ws)"

definition clean_repetitive_title :: "string \<Rightarrow> string" where
  "clean_repetitive_title t = join_words (clean_words None None [] (split t))"

record title_line =
  tl_text :: string
  tl_y :: rat
  tl_size :: rat
  tl_font :: string
  tl_bbox :: bbox

record title_candidate =
  tc_text :: string
  tc_score :: int
  tc_y :: rat
  tc_size :: rat

text \<open>The lines of the top half of the first page (source lines 89 to 114).\<close>

definition title_line_of :: "line \<Rightarrow> title_line list" where
  "title_line_of li =
     (case line_spans li of [] \<Rightarrow> []
      | s # _ \<Rightarrow>
         (let t = strip (concat (map span_text (line_spans li)))
          in if t = [] \<or> length t < 3 then []
             else [\<lparr> tl_text = remove_control (collapse_whitespace t),
                      tl_y = bbox1 (line_bbox li), tl_size = span_size s,
                      tl_font = span_font s, tl_bbox = line_bbox li \<rparr>]))"

definition title_lines :: "page \<Rightarrow> title_line list" where
  "title_lines pg =
     concat (map (\<lambda>b. if bbox1 (block_bbox b) > page_height pg * 0.5 then []
                       else concat (map title_line_of (block_lines b)))
               (page_blocks pg))"

text \<open>
  One iteration of the loop of source lines 128 to 182: the candidates it appends, or
  the exception of a division by zero.
\<close>

definition title_candidate_of :: "rat \<Rightarrow> page \<Rightarrow> title_line \<Rightarrow> exn + title_candidate list" where
  "title_candidate_of body pg l =
     (let count = length (split (tl_text l))
      in if tl_size l < body * 1.3 then Inr []
         else if (\<exists>k \<in> set [''page'', ''copyright'', ''confidential'', ''draft''].
                    contains (lower (tl_text l)) k) then Inr []
         else if count > 20 then Inr []
         else if ends_with (rstrip (tl_text l)) ''.'' then Inr []
         else if body = 0 \<or> page_height pg = 0
           then Inl (ZeroDivisionError ''float division by zero'')
         else (let ratio = tl_size l / body; relative_y = tl_y l / page_height pg
               in Inr [\<lparr> tc_text = tl_text l,
                          tc_score =
                             (if ratio \<ge> 2 then 10 else if ratio \<ge> 1.5 then 7
                              else if ratio \<ge> 1.3 then 5 else 0)
                           + (if relative_y < 0.1 then 5 else if relative_y < 0.2 then 3
                              else if relative_y < 0.3 then 1 else 0)
                           + (if font_has [''bold'', ''heavy'', ''black''] (tl_font l) then 3 else 0)
                           + (if 3 \<le> count \<and> count \<le> 15 then 2 else 0),
                          tc_y = tl_y l, tc_size = tl_size l \<rparr>]))"

fun title_candidates :: "rat \<Rightarrow> page \<Rightarrow> title_line list \<Rightarrow> exn + title_candidate list" where
  "title_candidates body pg [] = Inr []"
| "title_candidates body pg (l # ls) =
     (case title_candidate_of body pg l of Inl e \<Rightarrow> Inl e
      | Inr cs \<Rightarrow>
         (case title_candidates body pg ls of Inl e \<Rightarrow> Inl e
          | Inr cs' \<Rightarrow> Inr (cs @ cs')))"

text \<open>
  The loop of source lines 200 to 213, which stops at the first candidate that is not
  merged.
\<close>

fun merge_title_parts :: "string list \<Rightarrow> rat \<Rightarrow> rat \<Rightarrow> title_candidate list \<Rightarrow> string list" where
  "merge_title_parts title_parts best_y best_size [] = title_parts"
| "merge_title_parts title_parts best_y best_size (c # cs) =
     (if \<bar>tc_y c - best_y\<bar> < best_size * 3 \<and> \<bar>tc_size c - best_size\<bar> < 4 \<and> tc_score c \<ge> 3
      then (if \<not> is_repetitive_text (join_words (title_parts @ [tc_text c]))
            then merge_title_parts (title_parts @ [tc_text c]) (tc_y c) best_size cs
            else title_parts)
      else title_parts)"

definition metadata_title_or_untitled :: "doc \<Rightarrow> string" where
  "metadata_title_or_untitled d =
     (case metadata_title d of None \<Rightarrow> ''Untitled'' | Some t \<Rightarrow> t)"

text \<open>The body of the \<open>try\<close> block of \<open>_extract_title\<close>.\<close>

definition extract_title_body :: "doc \<Rightarrow> style_profile \<Rightarrow> exn + string" where
  "extract_title_body d sp =
     (case doc_pages d of [] \<Rightarrow> Inr (metadata_title_or_untitled d)
      | pg # _ \<Rightarrow>
         (let text_lines = sort_key tl_y (title_lines pg)
          in if text_lines = [] then Inr (metadata_title_or_untitled d)
             else (case title_candidates (body_size sp) pg text_lines of Inl e \<Rightarrow> Inl e
                   | Inr cands \<Rightarrow>
                      (case sort_key (\<lambda>c. (- tc_score c, tc_y c)) cands of
                         [] \<Rightarrow>
                           (let max_size = Max (set (map tl_size text_lines))
                            in case min_by tl_y (filter (\<lambda>l. tl_size l = max_size) text_lines) of
                                 Some best_line \<Rightarrow> Inr (tl_text best_line)
                               | None \<Rightarrow> Inr (metadata_title_or_untitled d))
                       | best # remaining_candidates \<Rightarrow>
                           (let title_parts =
                                  merge_title_parts [tc_text best] (tc_y best) (tc_size best)
                                    remaining_candidates;
                                final_title =
                                  collapse_whitespace
                                    (clean_repetitive_title (strip (join_words title_parts)))
                            in Inr (if final_title \<noteq> [] then final_title
                                    else metadata_title_or_untitled d))))))"

text \<open>\<open>_extract_title(doc, style_profile)\<close>: any exception gives the metadata title.\<close>

definition extract_title :: "doc \<Rightarrow> style_profile \<Rightarrow> string" where
  "extract_title d sp =
     (case extract_title_body d sp of Inl e \<Rightarrow> metadata_title_or_untitled d | Inr t \<Rightarrow> t)"

section \<open>The document boundary\<close>

record document_structure =
  title :: string
  outline :: "outline_entry list"

text \<open>What has happened to the document handle when the function returns.\<close>

datatype handle_state = Never_Opened | Left_Open | Closed

text \<open>
  \<open>extract_document_structure(pdf_path)\<close>.  The second argument is what
  \<open>fitz.open(pdf_path)\<close> does: it raises an exception whose text is \<open>e\<close>, or it returns
  the document.  The result is the returned record, or the exception that leaves the
  function, together with the state of the handle.

  \<open>len(doc)\<close> (source line 648) and \<open>_profile_document_styles(doc)\<close> (line 651) are
  called outside every \<open>try\<close>: an exception of the collaborator there leaves the
  function, and the handle stays open.  A call that has succeeded succeeds again: once
  the profiler has read every page, the title and heading extractors read the pages, the
  page count and the metadata without an exception of the collaborator, so the
  exceptions inside the \<open>try\<close> blocks are those of the engine's own operations.
\<close>

definition extract_document_structure ::
  "(rat list \<Rightarrow> rat list) \<Rightarrow> string + doc \<Rightarrow> (exn + document_structure) \<times> handle_state" where
  "extract_document_structure set_order opened =
     (case opened of
        Inl e \<Rightarrow>
          (Inr \<lparr> title = ''Error: Failed to open or read PDF: '' @ e, outline = [] \<rparr>,
           Never_Opened)
      | Inr d \<Rightarrow>
          (case len_error d of
             Some x \<Rightarrow> (Inl x, Left_Open)
           | None \<Rightarrow>
               if length (doc_pages d) = 0
               then (Inr \<lparr> title = ''Error: Empty or invalid PDF.'', outline = [] \<rparr>, Left_Open)
               else (case profile_document_styles d of
                       Inl x \<Rightarrow> (Inl x, Left_Open)
                     | Inr None \<Rightarrow>
                         (Inr \<lparr> title = ''Error: PDF contains no text content.'',
                                outline = [] \<rparr>, Closed)
                     | Inr (Some sp) \<Rightarrow>
                         (let t = extract_title d sp
                          in case extract_headings set_order d sp t of
                               Inl e \<Rightarrow>
                                 (Inr \<lparr> title = ''Error: Failed during content extraction: ''
                                                @ str_of_exn e, outline = [] \<rparr>, Closed)
                             | Inr ol \<Rightarrow> (Inr \<lparr> title = t, outline = ol \<rparr>, Closed)))))"

text \<open>
  The exception, if any, that the body of \<open>_extract_title\<close> raises on a document that has
  been profiled.
\<close>

definition title_exception :: "doc \<Rightarrow> exn option" where
  "title_exception d =
     (case profile_document_styles d of
        Inr (Some sp) \<Rightarrow> (case extract_title_body d sp of Inl x \<Rightarrow> Some x | Inr t \<Rightarrow> None)
      | _ \<Rightarrow> None)"

text \<open>
  The texts and sizes of the accepted heading candidates of a document that are
  neither numbered nor chapters nor appendices.
\<close>

definition unnumbered_candidates :: "doc \<Rightarrow> (string \<times> rat) list" where
  "unnumbered_candidates d =
     (case profile_document_styles d of
        Inr (Some sp) \<Rightarrow>
          (case heading_candidates d sp of
             Inr cands \<Rightarrow> map (\<lambda>h. (h_text h, h_size h)) (unnumbered_headings cands)
           | Inl e \<Rightarrow> [])
      | _ \<Rightarrow> [])"

text \<open>The shape of an error result: a title that starts with \<open>Error:\<close> and no outline.\<close>

definition error_record :: "document_structure \<Rightarrow> bool" where
  "error_record r = (starts_with (title r) ''Error:'' \<and> outline r = [])"

text \<open>The key by which duplicates are removed, and the key of the final sort.\<close>

definition duplicate_key :: "outline_entry \<Rightarrow> string \<times> nat" where
  "duplicate_key e = (lower (entry_text e), entry_page e)"

definition sort_position :: "outline_entry \<Rightarrow> nat \<times> string" where
  "sort_position e = (entry_page e, entry_text e)"

text \<open>
  What is expected of \<open>set_order\<close>: it returns the distinct values it is given, in some
  order.
\<close>

definition enumerates :: "(rat list \<Rightarrow> rat list) \<Rightarrow> bool" where
  "enumerates set_order =
     (\<forall>xs. distinct xs \<longrightarrow> distinct (set_order xs) \<and> set (set_order xs) = set xs)"

section \<open>Example documents\<close>

text \<open>
  A block of one line with one span, on a page of 612 by 792 units, and a paragraph of
  body text of more than a hundred characters.
\<close>

definition text_block :: "string \<Rightarrow> string \<Rightarrow> rat \<Rightarrow> rat \<Rightarrow> block" where
  "text_block t f sz y =
     \<lparr> block_bbox = (72, y, 540, y + sz),
       block_lines = [\<lparr> line_bbox = (72, y, 540, y + sz),
                        line_spans = [\<lparr> span_text = t, span_font = f, span_size = sz \<rparr>] \<rparr>] \<rparr>"

definition page_of :: "block list \<Rightarrow> page" where
  "page_of bs =
     \<lparr> page_height = 792, page_width = 612, page_blocks = bs, page_blocks_sorted = bs,
       page_error = None \<rparr>"

definition body_block :: "rat \<Rightarrow> block" where
  "body_block y =
     text_block
       ''This paragraph is ordinary body text of the document and it is long enough to count for more than one hundred characters.''
       ''Helvetica'' 10 y"

text \<open>A document without pages, and a document whose only page has no text.\<close>

definition no_pages_doc :: doc where
  "no_pages_doc = \<lparr> doc_pages = [], metadata_title = None, len_error = None \<rparr>"

definition blank_page_doc :: doc where
  "blank_page_doc = \<lparr> doc_pages = [page_of []], metadata_title = None, len_error = None \<rparr>"

text \<open>A document all of whose text is set in font size 0.\<close>

definition zero_size_doc :: doc where
  "zero_size_doc =
     \<lparr> doc_pages = [page_of [text_block ''Hello World'' ''Helvetica'' 0 100],
                    page_of [text_block ''Hello World'' ''Helvetica'' 0 100]],
       metadata_title = None, len_error = None \<rparr>"

text \<open>A one-page document all of whose text is set in font size 0.\<close>

definition zero_size_page_doc :: doc where
  "zero_size_page_doc =
     \<lparr> doc_pages = [page_of [text_block ''Hello World'' ''Helvetica'' 0 100]],
       metadata_title = None, len_error = None \<rparr>"

text \<open>A document whose only page cannot be read, as that of an encrypted file.\<close>

definition unreadable_doc :: doc where
  "unreadable_doc =
     \<lparr> doc_pages = [\<lparr> page_height = 792, page_width = 612, page_blocks = [],
                      page_blocks_sorted = [],
                      page_error = Some (CollaboratorError ''document closed or encrypted'') \<rparr>],
       metadata_title = None, len_error = None \<rparr>"

text \<open>A document whose title line is repeated as a numbered heading on the second page.\<close>

definition repeated_title_doc :: doc where
  "repeated_title_doc =
     \<lparr> doc_pages = [page_of [text_block ''1. Overview'' ''Helvetica-Bold'' 24 100, body_block 300],
                    page_of [text_block ''1. Overview'' ''Helvetica-Bold'' 16 100, body_block 300]],
       metadata_title = None, len_error = None \<rparr>"

text \<open>A document with unnumbered headings in five font sizes on its second page.\<close>

definition five_sizes_doc :: doc where
  "five_sizes_doc =
     \<lparr> doc_pages = [page_of [text_block ''Annual Report'' ''Helvetica-Bold'' 36 100, body_block 300],
                    page_of [text_block ''First Heading'' ''Helvetica-Bold'' 30 100,
                             text_block ''Second Heading'' ''Helvetica-Bold'' 26 150,
                             text_block ''Third Heading'' ''Helvetica-Bold'' 22 200,
                             text_block ''Fourth Heading'' ''Helvetica-Bold'' 18 250,
                             text_block ''Fifth Heading'' ''Helvetica-Bold'' 14 300,
                             body_block 400]],
       metadata_title = None, len_error = None \<rparr>"

text \<open>A line that is the single all-caps token \<open>SUMMARY\<close>, set large and bold.\<close>

definition summary_line :: line where
  "summary_line =
     \<lparr> line_bbox = (72, 100, 540, 124),
       line_spans = [\<lparr> span_text = ''SUMMARY'', span_font = ''Helvetica-Bold'',
                        span_size = 24 \<rparr>] \<rparr>"

text \<open>A one-page document with a large numbered line under its title.\<close>

definition single_page_doc :: doc where
  "single_page_doc =
     \<lparr> doc_pages = [page_of [text_block ''Annual Report'' ''Helvetica-Bold'' 36 100,
                             text_block ''1. Overview'' ''Helvetica-Bold'' 16 200,
                             body_block 300]],
       metadata_title = None, len_error = None \<rparr>"

text \<open>Entries that agree in page and in lowercased text.\<close>

definition duplicated_entries :: "outline_entry list" where
  "duplicated_entries =
     [\<lparr> entry_level = H2, entry_text = ''scope'', entry_page = 2 \<rparr>,
      \<lparr> entry_level = H1, entry_text = ''Scope'', entry_page = 2 \<rparr>,
      \<lparr> entry_level = H1, entry_text = ''Scope'', entry_page = 3 \<rparr>,
      \<lparr> entry_level = H3, entry_text = ''Scope'', entry_page = 2 \<rparr>]"

text \<open>A style profile with body size 10 and heading sizes 24, 18 and 14.\<close>

definition example_profile :: style_profile where
  "example_profile =
     \<lparr> body_size = 10, body_font = ''Helvetica'', font_size_stats = [],
       heading_sizes = \<lparr> largest = 24, second_largest = 18, third_largest = 14 \<rparr>,
       sorted_sizes = [24, 18, 14, 10] \<rparr>"

text \<open>A candidate with a given text, size and page, and no other signal.\<close>

definition plain_candidate :: "string \<Rightarrow> rat \<Rightarrow> nat \<Rightarrow> bool \<Rightarrow> heading_candidate" where
  "plain_candidate t sz pg numbered =
     \<lparr> h_text = t, h_size = sz, h_font = ''Helvetica'', h_page = pg, h_y = 100, h_score = 12,
       h_is_numbered = numbered, h_is_appendix = False, h_is_chapter = False,
       h_is_section = False, h_is_bold = False, h_is_all_caps = False,
       h_size_ratio = sz / 10 \<rparr>"

text \<open>
  Two unnumbered candidates in two sizes, for a body size of 10, and the analysis of a
  cluster just above the body size with a low average score.
\<close>

definition two_sizes :: "heading_candidate list" where
  "two_sizes = [plain_candidate ''Alpha Beta'' 15 1 False,
                plain_candidate ''Gamma Delta'' (21 / 2) 2 False]"

definition low_cluster :: size_analysis where
  "low_cluster =
     \<lparr> sa_count = 1, sa_avg_score = 5, sa_bold_ratio = 0, sa_caps_ratio = 0,
       sa_size_ratio = 21 / 20, sa_headings = [] \<rparr>"

text \<open>A numbered line set in the body size, with no other signal than its length.\<close>

definition numbered_body_size_signals :: signals where
  "numbered_body_size_signals =
     \<lparr> word_count = 3, is_bold = False, is_medium = False, size_ratio = 1,
       is_larger = False, is_much_larger = False, is_numbered = True,
       is_appendix = False, is_chapter = False, is_section = False,
       is_all_caps = False, is_title_case = False, is_short = True,
       is_centered = False, is_left_aligned = False, has_space_before = False,
       is_top_size = False, is_second_size = False, is_third_size = False \<rparr>"

section \<open>Theorems\<close>

text \<open>
  C6, as amended.  The threshold is 10 whenever the line has more than ten words or is
  not larger than the body size, whatever its pattern matches; otherwise it is 6 for a
  numbered, chapter or appendix match, otherwise 7 for (much larger and bold) or (at
  most five words and larger), otherwise 8.  A candidate is accepted exactly when its
  score reaches that threshold.
\<close>

theorem C6_threshold_as_coded:
  "min_threshold g =
     (if word_count g > 10 \<or> \<not> is_larger g then 10
      else if is_numbered g \<or> is_chapter g \<or> is_appendix g then 6
      else if (is_much_larger g \<and> is_bold g) \<or> (word_count g \<le> 5 \<and> is_larger g) then 7
      else 8)
   \<and> (accepted g \<longleftrightarrow> score g \<ge> min_threshold g)"
  by (simp add: min_threshold_def accepted_def)

theorem C6_threshold_as_coded_witness:
  "min_threshold numbered_body_size_signals = 10
   \<and> (accepted numbered_body_size_signals \<longleftrightarrow> score numbered_body_size_signals \<ge> 10)"
  using C6_threshold_as_coded [of numbered_body_size_signals]
  by (simp add: numbered_body_size_signals_def)

text \<open>
  C6 as stated fails: a numbered line that is not larger than the body size has
  threshold 10, not 6, and with a score of 8 it is rejected although 8 reaches 6.
\<close>

theorem C6_numbered_threshold_counterexample:
  "is_numbered numbered_body_size_signals
   \<and> min_threshold numbered_body_size_signals = 10
   \<and> score numbered_body_size_signals = 8
   \<and> \<not> accepted numbered_body_size_signals"
  by (simp add: numbered_body_size_signals_def min_threshold_def score_def accepted_def)


subsection \<open>Levels of numbered headings\<close>

lemma then_space_Some: "then_space m \<Longrightarrow> \<exists>c r. m = Some (c # r) \<and> is_space c"
  by (auto simp: then_space_def split: option.splits list.splits)

lemma space_not_dot: "is_space c \<Longrightarrow> c \<noteq> CHR ''.''"
  by (auto simp: is_space_def)

lemma space_not_digit: "is_space c \<Longrightarrow> \<not> is_digit c"
  by (auto simp: is_space_def is_digit_def Let_def)

lemma dot_digits_after_space: "then_space m \<Longrightarrow> dot_digits m = None"
  by (auto simp: dot_digits_def lit_def dest!: then_space_Some dest: space_not_dot)

lemma dot_digits_None: "dot_digits None = None"
  by (simp add: dot_digits_def)

lemma digits1_after_space: "then_space m \<Longrightarrow> Option.bind m digits1 = None"
  by (auto simp: digits1_def dest!: then_space_Some dest: space_not_digit)

lemma two_segments_digits_dot: "two_segments t = Option.bind (digits_dot t) digits1"
  by (simp add: two_segments_def dot_digits_def digits_dot_def)

lemma roman_not_digit: "is_roman c \<Longrightarrow> \<not> is_digit c"
  by (auto simp: is_roman_def is_digit_def)

lemma alpha_not_digit: "is_alpha c \<Longrightarrow> \<not> is_digit c"
  by (auto simp: is_alpha_def is_upper_def is_lower_def is_digit_def Let_def)

lemma roman_dot_no_digits: "roman_dot t \<noteq> None \<Longrightarrow> digits1 t = None"
  by (auto simp: roman_dot_def digits1_def dest: roman_not_digit split: list.splits if_splits)

lemma letter_dot_no_digits: "letter_dot t \<noteq> None \<Longrightarrow> digits1 t = None"
  by (auto simp: letter_dot_def digits1_def dest: alpha_not_digit split: list.splits if_splits)

lemma no_digits_no_segments:
  "digits1 t = None \<Longrightarrow>
     digits_dot t = None \<and> two_segments t = None \<and> three_segments t = None \<and> four_segments t = None"
  by (simp add: digits_dot_def two_segments_def three_segments_def four_segments_def dot_digits_def)

lemma level_one_segment: "then_space (digits_dot t) \<Longrightarrow> numbered_level t = H1"
  using digits1_after_space [of "digits_dot t"]
  by (auto simp: numbered_level_def two_segments_digits_dot three_segments_def four_segments_def
      dot_digits_None dest: then_space_Some)

lemma level_two_segments: "then_space (two_segments t) \<Longrightarrow> numbered_level t = H2"
  using dot_digits_after_space [of "two_segments t"]
  by (auto simp: numbered_level_def three_segments_def four_segments_def dot_digits_None
      dest: then_space_Some)

lemma level_three_segments: "then_space (three_segments t) \<Longrightarrow> numbered_level t = H3"
  using dot_digits_after_space [of "three_segments t"]
  by (auto simp: numbered_level_def four_segments_def dest: then_space_Some)

lemma level_four_segments: "then_space (four_segments t) \<Longrightarrow> numbered_level t = H4"
  by (auto simp: numbered_level_def dest: then_space_Some)

lemma level_roman: "then_space (roman_dot t) \<Longrightarrow> numbered_level t = H1"
proof -
  assume a: "then_space (roman_dot t)"
  then have "roman_dot t \<noteq> None" by (auto dest: then_space_Some)
  then have "digits1 t = None" by (rule roman_dot_no_digits)
  from no_digits_no_segments [OF this] \<open>roman_dot t \<noteq> None\<close> show ?thesis
    by (simp add: numbered_level_def)
qed

lemma level_letter:
  assumes "then_space (letter_dot t)" and "\<not> is_roman (hd t)"
  shows "numbered_level t = H2"
proof -
  from assms(1) have l: "letter_dot t \<noteq> None" by (auto dest: then_space_Some)
  then have "digits1 t = None" by (rule letter_dot_no_digits)
  from no_digits_no_segments [OF this] have n: "digits_dot t = None" "two_segments t = None"
    "three_segments t = None" "four_segments t = None" by simp_all
  from assms(2) have "roman_dot t = None" by (cases t) (simp_all add: roman_dot_def)
  with n l show ?thesis by (simp add: numbered_level_def)
qed

text \<open>
  C1, as amended.  Every outline entry made from a numbered candidate (one that is
  neither a chapter nor an appendix match) has the level that the \<open>if/elif\<close> chain
  reads off its text, whatever the font size of the candidate: one dotted segment
  before the whitespace gives H1, two give H2, three give H3, four give H4, a prefix of
  roman-numeral capitals and a dot gives H1 also when it is a single letter, and a
  single letter and a dot gives H2 when the letter is none of I, V, X, L, C, D, M.
\<close>

theorem C1_numbered_level_by_shape:
  assumes "e \<in> set (numbered_entries cands)"
  shows "entry_level e = numbered_level (entry_text e)
    \<and> (then_space (digits_dot (entry_text e)) \<longrightarrow> entry_level e = H1)
    \<and> (then_space (two_segments (entry_text e)) \<longrightarrow> entry_level e = H2)
    \<and> (then_space (three_segments (entry_text e)) \<longrightarrow> entry_level e = H3)
    \<and> (then_space (four_segments (entry_text e)) \<longrightarrow> entry_level e = H4)
    \<and> (then_space (roman_dot (entry_text e)) \<longrightarrow> entry_level e = H1)
    \<and> (then_space (letter_dot (entry_text e)) \<and> \<not> is_roman (hd (entry_text e))
         \<longrightarrow> entry_level e = H2)"
proof -
  from assms have "entry_level e = numbered_level (entry_text e)"
    by (auto simp: numbered_entries_def)
  then show ?thesis
    by (simp add: level_one_segment level_two_segments level_three_segments level_four_segments
        level_roman level_letter)
qed


theorem C1_numbered_level_by_shape_witness:
  "\<lparr> entry_level = H3, entry_text = ''2.3.1 Scope'', entry_page = 4 \<rparr>
     \<in> set (numbered_entries [plain_candidate ''2.3.1 Scope'' 9 4 True])
   \<and> then_space (three_segments ''2.3.1 Scope'')
   \<and> numbered_level ''2.3.1 Scope'' = H3"
proof -
  have m: "\<lparr> entry_level = H3, entry_text = ''2.3.1 Scope'', entry_page = 4 \<rparr>
     \<in> set (numbered_entries [plain_candidate ''2.3.1 Scope'' 9 4 True])"
    by code_simp
  have s: "then_space (three_segments ''2.3.1 Scope'')" by code_simp
  from C1_numbered_level_by_shape [OF m] s m show ?thesis by simp
qed

text \<open>
  C1 as stated fails for a single-letter prefix whose letter is a roman-numeral
  capital: \<open>C. Scope\<close> matches the single-letter alternative of the numbered pattern and
  is given H1.
\<close>

theorem C1_single_letter_counterexample:
  "then_space (letter_dot ''C. Scope'') \<and> numbered_pattern ''C. Scope''
   \<and> numbered_level ''C. Scope'' = H1
   \<and> numbered_entries [plain_candidate ''C. Scope'' 12 2 True]
       = [\<lparr> entry_level = H1, entry_text = ''C. Scope'', entry_page = 2 \<rparr>]"
  by code_simp


subsection \<open>The non-heading filter\<close>

lemma single_word_exemption_unreachable: "non_heading t \<noteq> Some Single_Word_Label"
  by (auto simp: non_heading_def Let_def split: if_splits)

lemma fewer_than_two_words_discarded:
  "length (split t) < 2 \<Longrightarrow>
     non_heading t \<in> {Some Empty_Or_One_Char, Some Sentence_Punctuation, Some Fewer_Than_Two_Words}"
  by (auto simp: non_heading_def Let_def)

text \<open>
  C7, as amended.  A line of a single token is always discarded, whether or not it
  contains a structural keyword.  The check for single-word labels, with its exemption
  for the structural keywords, is never the one that decides: a line of fewer than two
  words has already been discarded by the word-count check before it, so no single
  token becomes a heading candidate.
\<close>

theorem C7_single_token_is_discarded:
  "non_heading t \<noteq> Some Single_Word_Label
   \<and> (length (split (strip (concat (map span_text (line_spans li))))) < 2
        \<longrightarrow> classify_line sp pg page_num previous_block blk li = Inr [])"
proof -
  have "classify_line sp pg page_num previous_block blk li = Inr []"
    if "length (split (strip (concat (map span_text (line_spans li))))) < 2"
    using fewer_than_two_words_discarded [OF that]
    by (auto simp: classify_line_def Let_def split: list.splits)
  then show ?thesis by (simp add: single_word_exemption_unreachable)
qed

theorem C7_single_token_is_discarded_witness:
  "non_heading ''SUMMARY'' = Some Fewer_Than_Two_Words
   \<and> (\<exists>k \<in> set structural_keywords. contains (lower ''SUMMARY'') k)
   \<and> classify_line example_profile (page_of []) 1 None
        (text_block ''SUMMARY'' ''Helvetica-Bold'' 24 100) summary_line = Inr []"
proof -
  have a: "non_heading ''SUMMARY'' = Some Fewer_Than_Two_Words" by code_simp
  have b: "\<exists>k \<in> set structural_keywords. contains (lower ''SUMMARY'') k" by code_simp
  have c: "length (split (strip (concat (map span_text (line_spans summary_line))))) < 2"
    by code_simp
  from C7_single_token_is_discarded [of "''SUMMARY''" summary_line example_profile "page_of []"
      1 None "text_block ''SUMMARY'' ''Helvetica-Bold'' 24 100"]
    a b c show ?thesis by simp
qed

text \<open>
  C7 as stated fails for the line \<open>SUMMARY\<close>, set large and bold: it is a single
  all-caps token that contains the structural keyword \<open>summary\<close>, and it is discarded
  for having fewer than two words.
\<close>

theorem C7_summary_counterexample:
  "split ''SUMMARY'' = [''SUMMARY'']
   \<and> isupper ''SUMMARY''
   \<and> ''summary'' \<in> set structural_keywords
   \<and> contains (lower ''SUMMARY'') ''summary''
   \<and> non_heading ''SUMMARY'' = Some Fewer_Than_Two_Words
   \<and> classify_line example_profile (page_of [body_block 300]) 2 None
        (text_block ''SUMMARY'' ''Helvetica-Bold'' 24 100) summary_line = Inr []"
  by code_simp

subsection \<open>The document boundary\<close>

text \<open>
  C5.  After a successful open the handle is closed on every return path but one: when
  the document has no pages the function returns with the handle still open.  An
  exception of the collaborator that leaves the function leaves the handle open too.
\<close>

theorem C5_handle_after_return:
  "snd (extract_document_structure set_order (Inr d))
     = (case fst (extract_document_structure set_order (Inr d)) of
          Inl x \<Rightarrow> Left_Open
        | Inr r \<Rightarrow> if doc_pages d = [] then Left_Open else Closed)"
  by (simp add: extract_document_structure_def Let_def split: option.split sum.split)

theorem C5_handle_after_return_witness:
  "snd (extract_document_structure (\<lambda>xs. xs) (Inr no_pages_doc)) = Left_Open
   \<and> snd (extract_document_structure (\<lambda>xs. xs) (Inr blank_page_doc)) = Closed"
proof -
  have a: "fst (extract_document_structure (\<lambda>xs. xs) (Inr no_pages_doc))
     = Inr \<lparr> title = ''Error: Empty or invalid PDF.'', outline = [] \<rparr>"
    by code_simp
  have b: "fst (extract_document_structure (\<lambda>xs. xs) (Inr blank_page_doc))
     = Inr \<lparr> title = ''Error: PDF contains no text content.'', outline = [] \<rparr>"
    by code_simp
  from a b C5_handle_after_return [of "\<lambda>xs. xs" no_pages_doc]
    C5_handle_after_return [of "\<lambda>xs. xs" blank_page_doc]
  show ?thesis by (simp add: no_pages_doc_def blank_page_doc_def)
qed

lemma no_spans_no_profile:
  "first_page_error (doc_pages d) = None \<Longrightarrow> all_spans d = [] \<Longrightarrow>
     profile_document_styles d = Inr None"
  by (simp add: profile_document_styles_def)

lemma profile_raises:
  "profile_document_styles d = Inl x \<longleftrightarrow> first_page_error (doc_pages d) = Some x"
  by (simp add: profile_document_styles_def split: option.split)

text \<open>
  C2, as amended.  The function returns a record whenever \<open>len(doc)\<close> and the reading of
  the pages by the style profiler raise no exception.  A failed open, a document
  without pages, a readable document with at least one page and no span, and an
  exception that leaves the heading extraction each give an error record, whose title
  starts with \<open>Error:\<close> and whose outline is empty; the document without pages gives the
  empty-document error and the readable document with at least one page and no span
  gives the no-text-content error.  An exception inside the title extraction is caught
  there: the title is the metadata title, or \<open>Untitled\<close>, and the outline is the one
  extracted with that title.
\<close>

theorem C2_error_results:
  "(len_error d = None \<and> first_page_error (doc_pages d) = None \<longrightarrow>
      (\<exists>r. fst (extract_document_structure set_order (Inr d)) = Inr r))
   \<and> (fst (extract_document_structure set_order (Inl e))
        = Inr \<lparr> title = ''Error: Failed to open or read PDF: '' @ e, outline = [] \<rparr>)
   \<and> (len_error d = None \<and> doc_pages d = [] \<longrightarrow>
        fst (extract_document_structure set_order (Inr d))
          = Inr \<lparr> title = ''Error: Empty or invalid PDF.'', outline = [] \<rparr>)
   \<and> (len_error d = None \<and> doc_pages d \<noteq> [] \<and> first_page_error (doc_pages d) = None
        \<and> all_spans d = [] \<longrightarrow>
        fst (extract_document_structure set_order (Inr d))
          = Inr \<lparr> title = ''Error: PDF contains no text content.'', outline = [] \<rparr>)
   \<and> (len_error d = None \<and> doc_pages d \<noteq> [] \<and> profile_document_styles d = Inr (Some sp)
        \<and> extract_headings set_order d sp (extract_title d sp) = Inl x \<longrightarrow>
        fst (extract_document_structure set_order (Inr d))
          = Inr \<lparr> title = ''Error: Failed during content extraction: '' @ str_of_exn x,
                  outline = [] \<rparr>)
   \<and> (len_error d = None \<and> doc_pages d \<noteq> [] \<and> profile_document_styles d = Inr (Some sp)
        \<and> extract_title_body d sp = Inl y
        \<and> extract_headings set_order d sp (metadata_title_or_untitled d) = Inr ol \<longrightarrow>
        fst (extract_document_structure set_order (Inr d))
          = Inr \<lparr> title = metadata_title_or_untitled d, outline = ol \<rparr>)
   \<and> error_record \<lparr> title = ''Error: Failed to open or read PDF: '' @ e, outline = [] \<rparr>
   \<and> error_record \<lparr> title = ''Error: Empty or invalid PDF.'', outline = [] \<rparr>
   \<and> error_record \<lparr> title = ''Error: PDF contains no text content.'', outline = [] \<rparr>
   \<and> error_record \<lparr> title = ''Error: Failed during content extraction: '' @ str_of_exn x,
                     outline = [] \<rparr>"
proof -
  have 1: "\<exists>r. fst (extract_document_structure set_order (Inr d)) = Inr r"
    if "len_error d = None \<and> first_page_error (doc_pages d) = None"
  proof -
    from that have "profile_document_styles d \<noteq> Inl z" for z
      by (simp add: profile_raises)
    with that show ?thesis
      by (simp add: extract_document_structure_def Let_def split: option.split sum.split)
  qed
  have 2: "fst (extract_document_structure set_order (Inl e))
        = Inr \<lparr> title = ''Error: Failed to open or read PDF: '' @ e, outline = [] \<rparr>"
    by (simp add: extract_document_structure_def)
  have 3: "fst (extract_document_structure set_order (Inr d))
          = Inr \<lparr> title = ''Error: Empty or invalid PDF.'', outline = [] \<rparr>"
    if "len_error d = None \<and> doc_pages d = []"
    using that by (simp add: extract_document_structure_def)
  have 4: "fst (extract_document_structure set_order (Inr d))
          = Inr \<lparr> title = ''Error: PDF contains no text content.'', outline = [] \<rparr>"
    if "len_error d = None \<and> doc_pages d \<noteq> [] \<and> first_page_error (doc_pages d) = None
        \<and> all_spans d = []"
    using that by (simp add: extract_document_structure_def no_spans_no_profile)
  have 5: "fst (extract_document_structure set_order (Inr d))
          = Inr \<lparr> title = ''Error: Failed during content extraction: '' @ str_of_exn x,
                  outline = [] \<rparr>"
    if "len_error d = None \<and> doc_pages d \<noteq> [] \<and> profile_document_styles d = Inr (Some sp)
        \<and> extract_headings set_order d sp (extract_title d sp) = Inl x"
    using that by (simp add: extract_document_structure_def Let_def)
  have 6: "fst (extract_document_structure set_order (Inr d))
          = Inr \<lparr> title = metadata_title_or_untitled d, outline = ol \<rparr>"
    if "len_error d = None \<and> doc_pages d \<noteq> [] \<and> profile_document_styles d = Inr (Some sp)
        \<and> extract_title_body d sp = Inl y
        \<and> extract_headings set_order d sp (metadata_title_or_untitled d) = Inr ol"
  proof -
    from that have "extract_title d sp = metadata_title_or_untitled d"
      by (simp add: extract_title_def)
    with that show ?thesis by (simp add: extract_document_structure_def Let_def)
  qed
  have 7: "error_record \<lparr> title = ''Error: Failed to open or read PDF: '' @ e, outline = [] \<rparr>"
    "error_record \<lparr> title = ''Error: Empty or invalid PDF.'', outline = [] \<rparr>"
    "error_record \<lparr> title = ''Error: PDF contains no text content.'', outline = [] \<rparr>"
    "error_record \<lparr> title = ''Error: Failed during content extraction: '' @ str_of_exn x,
                     outline = [] \<rparr>"
    by (simp_all add: error_record_def starts_with_def)
  from 1 2 3 4 5 6 7 show ?thesis by blast
qed

theorem C2_error_results_witness:
  "fst (extract_document_structure (\<lambda>xs. xs) (Inl ''no such file''))
     = Inr \<lparr> title = ''Error: Failed to open or read PDF: no such file'', outline = [] \<rparr>
   \<and> fst (extract_document_structure (\<lambda>xs. xs) (Inr no_pages_doc))
     = Inr \<lparr> title = ''Error: Empty or invalid PDF.'', outline = [] \<rparr>
   \<and> fst (extract_document_structure (\<lambda>xs. xs) (Inr blank_page_doc))
     = Inr \<lparr> title = ''Error: PDF contains no text content.'', outline = [] \<rparr>
   \<and> fst (extract_document_structure (\<lambda>xs. xs) (Inr zero_size_doc))
     = Inr \<lparr> title = ''Error: Failed during content extraction: float division by zero'',
             outline = [] \<rparr>
   \<and> fst (extract_document_structure (\<lambda>xs. xs) (Inr zero_size_page_doc))
     = Inr \<lparr> title = ''Untitled'', outline = [] \<rparr>"
proof -
  have a: "len_error no_pages_doc = None \<and> doc_pages no_pages_doc = []"
    by (simp add: no_pages_doc_def)
  have b: "len_error blank_page_doc = None \<and> doc_pages blank_page_doc \<noteq> []
      \<and> first_page_error (doc_pages blank_page_doc) = None \<and> all_spans blank_page_doc = []"
    by (simp add: blank_page_doc_def all_spans_def page_of_def)
  have p: "len_error zero_size_doc = None \<and> doc_pages zero_size_doc \<noteq> []"
    by (simp add: zero_size_doc_def)
  have "case profile_document_styles zero_size_doc of
          Inr (Some sp) \<Rightarrow>
            extract_headings (\<lambda>xs. xs) zero_size_doc sp (extract_title zero_size_doc sp)
              = Inl (ZeroDivisionError ''float division by zero'')
        | _ \<Rightarrow> False"
    by code_simp
  then obtain sp where c: "profile_document_styles zero_size_doc = Inr (Some sp)"
      "extract_headings (\<lambda>xs. xs) zero_size_doc sp (extract_title zero_size_doc sp)
         = Inl (ZeroDivisionError ''float division by zero'')"
    by (auto split: sum.splits option.splits)
  have q: "len_error zero_size_page_doc = None \<and> doc_pages zero_size_page_doc \<noteq> []"
    by (simp add: zero_size_page_doc_def)
  have "case profile_document_styles zero_size_page_doc of
          Inr (Some sp) \<Rightarrow>
            extract_title_body zero_size_page_doc sp
              = Inl (ZeroDivisionError ''float division by zero'')
            \<and> extract_headings (\<lambda>xs. xs) zero_size_page_doc sp ''Untitled'' = Inr []
        | _ \<Rightarrow> False"
    by code_simp
  then obtain sp' where t: "profile_document_styles zero_size_page_doc = Inr (Some sp')"
      "extract_title_body zero_size_page_doc sp'
         = Inl (ZeroDivisionError ''float division by zero'')"
      "extract_headings (\<lambda>xs. xs) zero_size_page_doc sp' ''Untitled'' = Inr []"
    by (auto split: sum.splits option.splits)
  have m: "metadata_title_or_untitled zero_size_page_doc = ''Untitled''"
    by (simp add: metadata_title_or_untitled_def zero_size_page_doc_def)
  show ?thesis
    using a b p c q t m
      C2_error_results [where set_order = "\<lambda>xs. xs" and e = "''no such file''"
        and d = no_pages_doc]
      C2_error_results [where set_order = "\<lambda>xs. xs" and d = blank_page_doc]
      C2_error_results [where set_order = "\<lambda>xs. xs" and d = zero_size_doc and sp = sp
        and x = "ZeroDivisionError ''float division by zero''"]
      C2_error_results [where set_order = "\<lambda>xs. xs" and d = zero_size_page_doc and sp = sp'
        and y = "ZeroDivisionError ''float division by zero''" and ol = "[]"]
    by (simp add: str_of_exn_def)
qed

text \<open>
  C2 as stated fails in three places.  The document without pages has no text span, and
  its result is the empty-document error, not the no-text-content error.  For the
  document whose page cannot be read the function does not return: the exception of
  the collaborator leaves it.  And on the one-page document set in font size 0 the title
  extraction raises internally, and the result is the title \<open>Untitled\<close>, which does not
  start with \<open>Error:\<close>.
\<close>

theorem C2_error_claim_counterexample:
  "all_spans no_pages_doc = []
   \<and> fst (extract_document_structure (\<lambda>xs. xs) (Inr no_pages_doc))
       = Inr \<lparr> title = ''Error: Empty or invalid PDF.'', outline = [] \<rparr>
   \<and> ''Error: Empty or invalid PDF.'' \<noteq> ''Error: PDF contains no text content.''
   \<and> fst (extract_document_structure (\<lambda>xs. xs) (Inr unreadable_doc))
       = Inl (CollaboratorError ''document closed or encrypted'')
   \<and> title_exception zero_size_page_doc = Some (ZeroDivisionError ''float division by zero'')
   \<and> fst (extract_document_structure (\<lambda>xs. xs) (Inr zero_size_page_doc))
       = Inr \<lparr> title = ''Untitled'', outline = [] \<rparr>
   \<and> \<not> starts_with ''Untitled'' ''Error:''"
  by code_simp


subsection \<open>Pages of the outline entries\<close>

lemma classify_line_page:
  "classify_line sp pg n previous_block blk li = Inr cs \<Longrightarrow> h \<in> set cs \<Longrightarrow> h_page h = n"
  by (auto simp: classify_line_def Let_def split: list.splits if_splits)

lemma scan_lines_page:
  "scan_lines sp pg n previous_block blk lis = Inr cs \<Longrightarrow> h \<in> set cs \<Longrightarrow> h_page h = n"
  by (induction lis arbitrary: cs) (auto split: sum.splits dest: classify_line_page)

lemma scan_blocks_page:
  "scan_blocks sp pg n previous_block blks = Inr cs \<Longrightarrow> h \<in> set cs \<Longrightarrow> h_page h = n"
  by (induction blks arbitrary: previous_block cs)
    (auto split: if_splits sum.splits dest: scan_lines_page)

lemma scan_pages_page:
  "scan_pages sp n pgs = Inr cs \<Longrightarrow> h \<in> set cs \<Longrightarrow> n \<le> h_page h"
proof (induction pgs arbitrary: n cs)
  case Nil
  then show ?case by simp
next
  case (Cons pg pgs)
  from Cons.prems obtain cs1 cs2 where
    1: "scan_blocks sp pg n None (page_blocks_sorted pg) = Inr cs1" and
    2: "scan_pages sp (Suc n) pgs = Inr cs2" and 3: "cs = cs1 @ cs2"
    by (auto split: sum.splits)
  from Cons.prems(2) 3 consider "h \<in> set cs1" | "h \<in> set cs2" by auto
  then show ?case
  proof cases
    case 1
    with \<open>scan_blocks sp pg n None (page_blocks_sorted pg) = Inr cs1\<close> show ?thesis
      by (simp add: scan_blocks_page)
  next
    case 2
    with Cons.IH [OF \<open>scan_pages sp (Suc n) pgs = Inr cs2\<close>] show ?thesis by simp
  qed
qed

lemma heading_candidates_page:
  "heading_candidates d sp = Inr cs \<Longrightarrow> h \<in> set cs \<Longrightarrow> 1 \<le> h_page h"
  unfolding heading_candidates_def by (rule scan_pages_page)

lemma special_entries_from:
  "e \<in> set (special_entries cands) \<Longrightarrow>
     \<exists>h \<in> set cands. entry_page e = h_page h \<and> entry_text e = h_text h
        \<and> (h_is_chapter h \<or> h_is_appendix h)"
  by (auto simp: special_entries_def special_headings_def)

lemma numbered_entries_from:
  "e \<in> set (numbered_entries cands) \<Longrightarrow>
     \<exists>h \<in> set cands. entry_page e = h_page h \<and> entry_text e = h_text h \<and> h_is_numbered h"
  by (auto simp: numbered_entries_def numbered_headings_def)

lemma unnumbered_entry_from:
  "e \<in> set (unnumbered_entry m t h) \<Longrightarrow>
     entry_page e = h_page h \<and> entry_text e = clean_heading_text (h_text h)
     \<and> lower (entry_text e) \<noteq> lower t \<and> lower (entry_text e) \<notin> set toc_words"
  by (auto simp: unnumbered_entry_def Let_def split: option.splits if_splits)

lemma unnumbered_entries_from:
  assumes "unnumbered_entries set_order body t cands = Inr es" and "e \<in> set es"
  shows "\<exists>h \<in> set cands. entry_page e = h_page h
           \<and> entry_text e = clean_heading_text (h_text h)
           \<and> lower (entry_text e) \<noteq> lower t \<and> lower (entry_text e) \<notin> set toc_words"
  using assms
  by (auto simp: unnumbered_entries_def unnumbered_headings_def Let_def
      split: if_splits sum.splits dest!: unnumbered_entry_from)

lemma remove_duplicates_subset: "set (remove_duplicates seen xs) \<subseteq> set xs"
  by (induction xs arbitrary: seen) (auto simp: Let_def)

lemma assemble_outline_subset: "set (assemble_outline xs) \<subseteq> set xs"
  using remove_duplicates_subset [of "[]" "sort_key (\<lambda>e. (entry_page e, entry_text e)) xs"]
  by (simp add: assemble_outline_def)

lemma extract_headings_from:
  assumes "extract_headings set_order d sp t = Inr ol" and "e \<in> set ol"
  shows "\<exists>cands. heading_candidates d sp = Inr cands \<and> (\<exists>h \<in> set cands. entry_page e = h_page h)"
proof -
  from assms obtain cands where c: "heading_candidates d sp = Inr cands"
    by (auto simp: extract_headings_def split: sum.splits)
  show ?thesis
  proof (cases "cands = []")
    case True
    with assms c show ?thesis by (simp add: extract_headings_def)
  next
    case False
    with assms c obtain leveled where
      l: "unnumbered_entries set_order (body_size sp) t cands = Inr leveled" and
      o: "ol = assemble_outline (special_entries cands @ numbered_entries cands @ leveled)"
      by (auto simp: extract_headings_def split: sum.splits)
    from o assms(2) assemble_outline_subset
    have "e \<in> set (special_entries cands) \<or> e \<in> set (numbered_entries cands) \<or> e \<in> set leveled"
      by fastforce
    then have "\<exists>h \<in> set cands. entry_page e = h_page h"
      using special_entries_from numbered_entries_from unnumbered_entries_from [OF l]
      by blast
    with c show ?thesis by blast
  qed
qed

lemma extract_headings_page:
  assumes "extract_headings set_order d sp t = Inr ol" and "e \<in> set ol"
  shows "1 \<le> entry_page e"
  using extract_headings_from [OF assms] heading_candidates_page by fastforce

lemma heading_candidates_first_page:
  "heading_candidates (d\<lparr>doc_pages := p # ps\<rparr>) sp = heading_candidates (d\<lparr>doc_pages := p' # ps\<rparr>) sp"
  by (simp add: heading_candidates_def)

text \<open>
  C10.  Every entry of a returned outline has a page index of at least 1.  The heading
  extraction looks at the pages from index 1 on only: a document of at most one page has
  an empty outline, and replacing the first page of a document changes nothing in the
  headings extracted for a given style profile and title.
\<close>

theorem C10_no_entry_from_first_page:
  "(fst (extract_document_structure set_order opened) = Inr r \<longrightarrow>
      (\<forall>e \<in> set (outline r). 1 \<le> entry_page e))
   \<and> (extract_headings set_order d sp t = Inr ol \<longrightarrow> (\<forall>e \<in> set ol. 1 \<le> entry_page e))
   \<and> (length (doc_pages d) \<le> 1 \<longrightarrow> extract_headings set_order d sp t = Inr [])
   \<and> extract_headings set_order (d\<lparr>doc_pages := p # ps\<rparr>) sp t
       = extract_headings set_order (d\<lparr>doc_pages := p' # ps\<rparr>) sp t"
proof -
  have a: "\<forall>e \<in> set (outline r). 1 \<le> entry_page e"
    if "fst (extract_document_structure set_order opened) = Inr r"
    using that
    by (auto simp: extract_document_structure_def Let_def
        split: sum.splits if_splits option.splits dest: extract_headings_page)
  have b: "\<forall>e \<in> set ol. 1 \<le> entry_page e" if "extract_headings set_order d sp t = Inr ol"
    using that extract_headings_page by blast
  have c: "extract_headings set_order d sp t = Inr []" if "length (doc_pages d) \<le> 1"
    using that by (simp add: extract_headings_def heading_candidates_def)
  have d: "extract_headings set_order (d\<lparr>doc_pages := p # ps\<rparr>) sp t
       = extract_headings set_order (d\<lparr>doc_pages := p' # ps\<rparr>) sp t"
    by (simp add: extract_headings_def heading_candidates_def)
  from a b c d show ?thesis by blast
qed

theorem C10_no_entry_from_first_page_witness:
  "fst (extract_document_structure (\<lambda>xs. xs) (Inr repeated_title_doc))
     = Inr \<lparr> title = ''1. Overview'',
             outline = [\<lparr> entry_level = H1, entry_text = ''1. Overview'', entry_page = 1 \<rparr>] \<rparr>
   \<and> (1::nat) \<le> 1
   \<and> length (doc_pages single_page_doc) \<le> 1
   \<and> fst (extract_document_structure (\<lambda>xs. xs) (Inr single_page_doc))
     = Inr \<lparr> title = ''Annual Report'', outline = [] \<rparr>"
proof -
  have a: "fst (extract_document_structure (\<lambda>xs. xs) (Inr repeated_title_doc))
     = Inr \<lparr> title = ''1. Overview'',
             outline = [\<lparr> entry_level = H1, entry_text = ''1. Overview'', entry_page = 1 \<rparr>] \<rparr>"
    by code_simp
  have b: "length (doc_pages single_page_doc) \<le> 1"
    by (simp add: single_page_doc_def)
  have c: "fst (extract_document_structure (\<lambda>xs. xs) (Inr single_page_doc))
     = Inr \<lparr> title = ''Annual Report'', outline = [] \<rparr>"
    by code_simp
  from a b c
    C10_no_entry_from_first_page [where set_order = "\<lambda>xs. xs" and opened = "Inr repeated_title_doc"
      and d = single_page_doc]
  show ?thesis by simp
qed

subsection \<open>Duplicates\<close>

lemma remove_duplicates_Cons:
  "remove_duplicates seen (a # xs) =
     (if duplicate_key a \<in> set seen then remove_duplicates seen xs
      else a # remove_duplicates (duplicate_key a # seen) xs)"
  by (simp add: Let_def duplicate_key_def)

lemma remove_duplicates_keys:
  "set (map duplicate_key (remove_duplicates seen xs)) = set (map duplicate_key xs) - set seen"
  by (induction xs arbitrary: seen) (auto simp: remove_duplicates_Cons simp del: remove_duplicates.simps(2))

lemma remove_duplicates_key_unseen:
  "x \<in> set (remove_duplicates seen xs) \<Longrightarrow> duplicate_key x \<notin> set seen"
  using remove_duplicates_keys [of seen xs] by auto

lemma remove_duplicates_distinct:
  "distinct (map duplicate_key (remove_duplicates seen xs))"
proof (induction xs arbitrary: seen)
  case Nil
  then show ?case by simp
next
  case (Cons x xs)
  have "duplicate_key x \<notin> set (map duplicate_key (remove_duplicates (duplicate_key x # seen) xs))"
    unfolding remove_duplicates_keys by simp
  with Cons show ?case
    by (simp add: remove_duplicates_Cons del: remove_duplicates.simps(2))
qed

lemma remove_duplicates_first:
  "x \<in> set (remove_duplicates seen xs) \<Longrightarrow>
     find (\<lambda>y. duplicate_key y = duplicate_key x) xs = Some x"
proof (induction xs arbitrary: seen)
  case Nil
  then show ?case by simp
next
  case (Cons a xs)
  show ?case
  proof (cases "duplicate_key a \<in> set seen")
    case True
    with Cons.prems have m: "x \<in> set (remove_duplicates seen xs)"
      by (simp add: remove_duplicates_Cons del: remove_duplicates.simps(2))
    from remove_duplicates_key_unseen [OF m] True have "duplicate_key a \<noteq> duplicate_key x"
      by auto
    with Cons.IH [OF m] show ?thesis by simp
  next
    case False
    show ?thesis
    proof (cases "x = a")
      case True
      then show ?thesis by simp
    next
      case ne: False
      with Cons.prems False have m: "x \<in> set (remove_duplicates (duplicate_key a # seen) xs)"
        by (simp add: remove_duplicates_Cons del: remove_duplicates.simps(2))
      from remove_duplicates_key_unseen [OF m] have "duplicate_key a \<noteq> duplicate_key x"
        by auto
      with Cons.IH [OF m] show ?thesis by simp
    qed
  qed
qed

lemma remove_duplicates_sorted:
  "sorted (map f xs) \<Longrightarrow> sorted (map f (remove_duplicates seen xs))"
proof (induction xs arbitrary: seen)
  case Nil
  then show ?case by simp
next
  case (Cons a xs)
  then show ?case
    using remove_duplicates_subset [of "duplicate_key a # seen" xs]
    by (auto simp: remove_duplicates_Cons simp del: remove_duplicates.simps(2))
qed

lemma assemble_outline_props:
  "distinct (map duplicate_key (assemble_outline xs))
   \<and> sorted (map sort_position (assemble_outline xs))
   \<and> set (map duplicate_key (assemble_outline xs)) = set (map duplicate_key xs)"
proof -
  have s: "sorted (map sort_position (sort_key sort_position xs))"
    by (rule sorted_sort_key)
  have e: "assemble_outline xs = remove_duplicates [] (sort_key sort_position xs)"
    by (simp add: assemble_outline_def sort_position_def [abs_def])
  show ?thesis
    unfolding e
    using remove_duplicates_distinct [of "[]" "sort_key sort_position xs"]
      remove_duplicates_sorted [OF s, of "[]"]
      remove_duplicates_keys [of "[]" "sort_key sort_position xs"]
    by simp
qed

lemma extract_headings_assembled:
  assumes "extract_headings set_order d sp t = Inr ol"
  shows "\<exists>xs. ol = assemble_outline xs"
proof -
  have n: "[] = assemble_outline []" by (simp add: assemble_outline_def)
  from assms consider "ol = []" | "\<exists>xs. ol = assemble_outline xs"
    by (auto simp: extract_headings_def split: sum.splits if_splits)
  then show ?thesis using n by cases blast+
qed

text \<open>
  C8.  In every returned outline no two entries have the same lowercased text and page,
  and the entries are in the order of the sort by page and text.  The removal of
  duplicates keeps, for each pair of lowercased text and page, the first entry of the
  sorted list that has it, and loses no pair.
\<close>

theorem C8_no_duplicate_entries:
  "(fst (extract_document_structure set_order opened) = Inr r \<longrightarrow>
      distinct (map duplicate_key (outline r)) \<and> sorted (map sort_position (outline r)))
   \<and> (\<forall>x \<in> set (assemble_outline xs).
        find (\<lambda>y. duplicate_key y = duplicate_key x) (sort_key sort_position xs) = Some x)
   \<and> set (map duplicate_key (assemble_outline xs)) = set (map duplicate_key xs)"
proof -
  have a: "distinct (map duplicate_key (outline r)) \<and> sorted (map sort_position (outline r))"
    if "fst (extract_document_structure set_order opened) = Inr r"
  proof -
    from that consider "outline r = []"
      | d sp t where "extract_headings set_order d sp t = Inr (outline r)"
      by (auto simp: extract_document_structure_def Let_def
          split: sum.splits if_splits option.splits)
    then show ?thesis
    proof cases
      case 1
      then show ?thesis by simp
    next
      case 2
      from extract_headings_assembled [OF 2] obtain ys where "outline r = assemble_outline ys" ..
      then show ?thesis using assemble_outline_props [of ys] by simp
    qed
  qed
  have e: "assemble_outline xs = remove_duplicates [] (sort_key sort_position xs)"
    by (simp add: assemble_outline_def sort_position_def [abs_def])
  have b: "\<forall>x \<in> set (assemble_outline xs).
        find (\<lambda>y. duplicate_key y = duplicate_key x) (sort_key sort_position xs) = Some x"
    unfolding e using remove_duplicates_first by blast
  from a b assemble_outline_props show ?thesis by blast
qed

theorem C8_no_duplicate_entries_witness:
  "assemble_outline duplicated_entries
     = [\<lparr> entry_level = H1, entry_text = ''Scope'', entry_page = 2 \<rparr>,
        \<lparr> entry_level = H1, entry_text = ''Scope'', entry_page = 3 \<rparr>]
   \<and> set (map duplicate_key (assemble_outline duplicated_entries))
       = set (map duplicate_key duplicated_entries)
   \<and> fst (extract_document_structure (\<lambda>xs. xs) (Inr repeated_title_doc))
       = Inr \<lparr> title = ''1. Overview'',
               outline = [\<lparr> entry_level = H1, entry_text = ''1. Overview'', entry_page = 1 \<rparr>] \<rparr>
   \<and> distinct (map duplicate_key
        [\<lparr> entry_level = H1, entry_text = ''1. Overview'', entry_page = 1 \<rparr>])"
proof -
  have a: "assemble_outline duplicated_entries
     = [\<lparr> entry_level = H1, entry_text = ''Scope'', entry_page = 2 \<rparr>,
        \<lparr> entry_level = H1, entry_text = ''Scope'', entry_page = 3 \<rparr>]"
    by code_simp
  have b: "fst (extract_document_structure (\<lambda>xs. xs) (Inr repeated_title_doc))
       = Inr \<lparr> title = ''1. Overview'',
               outline = [\<lparr> entry_level = H1, entry_text = ''1. Overview'', entry_page = 1 \<rparr>] \<rparr>"
    by code_simp
  have c: "set (map duplicate_key (assemble_outline duplicated_entries))
       = set (map duplicate_key duplicated_entries)"
    using C8_no_duplicate_entries [where xs = duplicated_entries] by blast
  have d: "distinct (map duplicate_key
        [\<lparr> entry_level = H1, entry_text = ''1. Overview'', entry_page = 1 \<rparr>])"
    using b C8_no_duplicate_entries [where set_order = "\<lambda>xs. xs"
        and opened = "Inr repeated_title_doc"
        and r = "\<lparr> title = ''1. Overview'',
               outline = [\<lparr> entry_level = H1, entry_text = ''1. Overview'', entry_page = 1 \<rparr>] \<rparr>"]
    by simp
  from a b c d show ?thesis by blast
qed

subsection \<open>Determinism\<close>

lemma unique_sizes_any_order:
  assumes "enumerates so" and "enumerates so'"
  shows "unique_sizes so un = unique_sizes so' un"
proof -
  let ?xs = "remdups (map (\<lambda>h. round2 (h_size h)) un)"
  have d: "distinct ?xs" by simp
  from assms d have "distinct (so ?xs)" "distinct (so' ?xs)" "set (so ?xs) = set (so' ?xs)"
    by (auto simp: enumerates_def)
  then have "sort (so ?xs) = sort (so' ?xs)"
    by (intro sorted_distinct_set_unique) simp_all
  then show ?thesis by (simp add: unique_sizes_def)
qed

text \<open>
  C9.  The engine is a function of the document, and the one place where an order that
  Python does not fix could enter, the enumeration of the set of rounded sizes, has no
  influence: any two enumerations give the same record and the same handle state.
\<close>

theorem C9_independent_of_set_order:
  assumes "enumerates so" and "enumerates so'"
  shows "extract_document_structure so opened = extract_document_structure so' opened"
proof -
  have "size_level_map so body un = size_level_map so' body un" for body un
    by (simp add: size_level_map_def unique_sizes_any_order [OF assms])
  then have "unnumbered_entries so body t cands = unnumbered_entries so' body t cands"
    for body t cands
    by (simp add: unnumbered_entries_def cong: if_cong)
  then have "extract_headings so d sp t = extract_headings so' d sp t" for d sp t
    by (simp add: extract_headings_def split: sum.split)
  then show ?thesis
    by (simp add: extract_document_structure_def Let_def split: sum.split option.split)
qed

theorem C9_independent_of_set_order_witness:
  "enumerates (\<lambda>xs. xs) \<and> enumerates rev
   \<and> extract_document_structure (\<lambda>xs. xs) (Inr five_sizes_doc)
       = extract_document_structure rev (Inr five_sizes_doc)"
proof -
  have a: "enumerates (\<lambda>xs. xs)" and b: "enumerates rev"
    by (simp_all add: enumerates_def)
  from a b C9_independent_of_set_order [OF a b, of "Inr five_sizes_doc"] show ?thesis by simp
qed

subsection \<open>Levels of the size clusters\<close>

lemma level_UNIV: "(UNIV :: level set) = {H1, H2, H3, H4}"
proof -
  have "lv \<in> {H1, H2, H3, H4}" for lv by (cases lv) simp_all
  then show ?thesis by blast
qed

lemma levels_in_order_all: "lv \<in> set levels_in_order"
  by (cases lv) (simp_all add: levels_in_order_def)

lemma unused_level_exists:
  assumes "distinct as" and "length as < 4"
  shows "\<exists>lv::level. lv \<notin> set as"
proof (rule ccontr)
  assume "\<not> (\<exists>lv. lv \<notin> set as)"
  then have "set as = (UNIV :: level set)" by blast
  then have "card (set as) = 4" by (simp add: level_UNIV)
  with assms show False by (simp add: distinct_card)
qed

lemma fallback_level_Some:
  assumes "distinct as" and "length as < 4"
  shows "\<exists>lv. fallback_level as = Some lv"
proof -
  from unused_level_exists [OF assms] obtain lv where "lv \<notin> set as" ..
  then have "fallback_level as \<noteq> None"
    using levels_in_order_all [of lv] by (auto simp: fallback_level_def find_None_iff)
  then show ?thesis by blast
qed

lemma choose_level_unused: "choose_level as a = Some lv \<Longrightarrow> lv \<notin> set as"
  by (auto simp: choose_level_def gated_level_def fallback_level_def find_Some_iff
      split: option.splits)

lemma choose_level_Some:
  assumes "distinct as" and "length as < 4"
  shows "\<exists>lv. choose_level as a = Some lv"
  using fallback_level_Some [OF assms] by (auto simp: choose_level_def split: option.splits)

lemma choose_level_exhausted: "set levels_in_order \<subseteq> set as \<Longrightarrow> choose_level as a = None"
  by (auto simp: choose_level_def gated_level_def fallback_level_def find_None_iff
      split: option.splits)

lemma map_similar_sizes_keys:
  "fst ` set (map_similar_sizes us sz lv m) = fst ` set m \<union> {c \<in> set us. \<bar>c - sz\<bar> < 1}"
  unfolding map_similar_sizes_def
  by (induction us arbitrary: m) (auto simp: dom_update)

lemma assign_levels_keeps_keys:
  "fst ` set m \<subseteq> fst ` set (assign_levels us as m ps)"
proof (induction ps arbitrary: as m)
  case Nil
  then show ?case by simp
next
  case (Cons p ps)
  show ?case
  proof (cases "choose_level as (snd p)")
    case None
    with Cons.IH [of m as] show ?thesis by simp
  next
    case (Some lv)
    have "fst ` set m \<subseteq> fst ` set (map_similar_sizes us (fst p) lv m)"
      by (simp add: map_similar_sizes_keys)
    also have "\<dots> \<subseteq> fst ` set (assign_levels us (lv # as) (map_similar_sizes us (fst p) lv m) ps)"
      by (rule Cons.IH)
    finally show ?thesis using Some by simp
  qed
qed

lemma assign_levels_covers:
  assumes "distinct as" and "length as + length ps \<le> 4" and "fst ` set ps \<subseteq> set us"
  shows "fst ` set ps \<subseteq> fst ` set (assign_levels us as m ps)"
  using assms
proof (induction ps arbitrary: as m)
  case Nil
  then show ?case by simp
next
  case (Cons p ps)
  from Cons.prems have l: "length as < 4" by simp
  from choose_level_Some [OF Cons.prems(1) l] obtain lv where
    c: "choose_level as (snd p) = Some lv" ..
  let ?m = "map_similar_sizes us (fst p) lv m"
  from choose_level_unused [OF c] Cons.prems(1) have d: "distinct (lv # as)" by simp
  from Cons.prems have n: "length (lv # as) + length ps \<le> 4" and s: "fst ` set ps \<subseteq> set us"
    by simp_all
  from Cons.prems(3) have "fst p \<in> fst ` set ?m" by (simp add: map_similar_sizes_keys)
  then have "fst p \<in> fst ` set (assign_levels us (lv # as) ?m ps)"
    using assign_levels_keeps_keys by blast
  with Cons.IH [OF d n s, of ?m] c show ?case by simp
qed

lemma analyse_sizes_keys: "analyse_sizes body un us = Inr as \<Longrightarrow> map fst as = us"
  by (induction us arbitrary: as) (auto split: sum.splits)

lemma size_level_map_covers:
  assumes "length (unique_sizes so un) \<le> 4" and "size_level_map so body un = Inr m"
  shows "set (unique_sizes so un) \<subseteq> fst ` set m"
proof -
  let ?us = "unique_sizes so un"
  from assms(2) obtain as where a: "analyse_sizes body un ?us = Inr as"
    and m: "m = assign_levels ?us [] [] (rank_sizes as)"
    by (auto simp: size_level_map_def Let_def split: sum.splits)
  from analyse_sizes_keys [OF a] have k: "map fst as = ?us" .
  then have "length as = length ?us" by (metis length_map)
  with assms(1) have 1: "length ([] :: level list) + length (rank_sizes as) \<le> 4"
    by (simp add: rank_sizes_def)
  from k have 2: "fst ` set (rank_sizes as) \<subseteq> set ?us"
    by (metis rank_sizes_def set_map set_sort subset_refl)
  from k have 3: "fst ` set (rank_sizes as) = set ?us"
    by (metis rank_sizes_def set_map set_sort)
  from assign_levels_covers [OF _ 1 2, of "[]"] 3 m show ?thesis by simp
qed

lemma unique_sizes_set:
  assumes "enumerates so"
  shows "set (unique_sizes so un) = (\<lambda>h. round2 (h_size h)) ` set un"
proof -
  from assms have "set (so (remdups (map (\<lambda>h. round2 (h_size h)) un)))
      = set (remdups (map (\<lambda>h. round2 (h_size h)) un))"
    by (simp add: enumerates_def)
  then show ?thesis by (simp add: unique_sizes_def)
qed

lemma min_by_None: "min_by f xs = None \<longleftrightarrow> xs = []"
  by (cases xs) (auto split: option.splits)

lemma min_by_least:
  "min_by f xs = Some p \<Longrightarrow> p \<in> set xs \<and> (\<forall>q \<in> set xs. f p \<le> f q)"
proof (induction xs arbitrary: p)
  case Nil
  then show ?case by simp
next
  case (Cons x xs)
  show ?case
  proof (cases "min_by f xs")
    case None
    then have "xs = []" by (simp add: min_by_None)
    with Cons.prems show ?thesis by simp
  next
    case (Some y)
    from Cons.IH [OF Some] have y: "y \<in> set xs" "\<forall>q \<in> set xs. f y \<le> f q" by simp_all
    show ?thesis
    proof (cases "f y < f x")
      case True
      with Some Cons.prems have "p = y" by simp
      with y True show ?thesis by auto
    next
      case False
      with Some Cons.prems have "p = x" by simp
      moreover from False have "f x \<le> f y" by simp
      ultimately show ?thesis using y(2) by auto
    qed
  qed
qed

lemma min_by_nonempty: "xs \<noteq> [] \<Longrightarrow> \<exists>p. min_by f xs = Some p"
  using min_by_None [of f xs] by auto

lemma closest_is_own_size:
  fixes m :: "(rat \<times> level) list"
  assumes "(k, lv) \<in> set m"
  shows "\<exists>p \<in> set m. fst p = k \<and> min_by (\<lambda>p. \<bar>fst p - k\<bar>) m = Some p"
proof -
  from assms have "m \<noteq> []" by auto
  from min_by_nonempty [OF this] obtain p where p: "min_by (\<lambda>p. \<bar>fst p - k\<bar>) m = Some p" ..
  from min_by_least [OF p] assms have "p \<in> set m" and "\<bar>fst p - k\<bar> \<le> \<bar>fst (k, lv) - k\<bar>"
    by blast+
  then have "fst p = k" by simp
  with p \<open>p \<in> set m\<close> show ?thesis by blast
qed

lemma assign_levels_exhausted:
  "set levels_in_order \<subseteq> set as \<Longrightarrow> assign_levels us as m ps = m"
  by (induction ps) (simp_all add: choose_level_exhausted)

text \<open>
  C3, as amended.  When the unnumbered candidates have at most four rounded sizes, every
  size gets a level, and a candidate whose rounded size is not 0 reaches the text filter
  with the level of its own size, so none is dropped for lack of a level.  This holds
  for every ranking of the clusters and every value of their ratios and scores: as long
  as levels are left, a cluster that passes no gate gets the first unused level in the
  order H1 to H4.  Once the four levels are used, a further cluster gets none and
  changes nothing in the map.
\<close>

theorem C3_level_for_every_cluster:
  "(enumerates so \<and> length (unique_sizes so un) \<le> 4 \<and> size_level_map so body un = Inr m
      \<and> h \<in> set un \<and> round2 (h_size h) \<noteq> 0 \<longrightarrow>
      (\<exists>lv. (round2 (h_size h), lv) \<in> set m \<and>
         unnumbered_entry m t h =
           (let clean_text = clean_heading_text (h_text h)
            in if clean_text \<noteq> [] \<and> length clean_text > 2 \<and> lower clean_text \<noteq> lower t
                  \<and> lower clean_text \<notin> set toc_words
               then [\<lparr> entry_level = lv, entry_text = clean_text, entry_page = h_page h \<rparr>]
               else [])))
   \<and> (distinct as \<and> length as + length ps \<le> 4 \<and> fst ` set ps \<subseteq> set us \<longrightarrow>
        fst ` set ps \<subseteq> fst ` set (assign_levels us as m' ps))
   \<and> (gated_level as a = None \<longrightarrow> choose_level as a = fallback_level as)
   \<and> (distinct as \<and> length as < 4 \<longrightarrow> (\<exists>lv. choose_level as a = Some lv \<and> lv \<notin> set as))
   \<and> (set levels_in_order \<subseteq> set as \<longrightarrow>
        choose_level as a = None \<and> assign_levels us as m' ps = m')"
proof -
  have 1: "\<exists>lv. (round2 (h_size h), lv) \<in> set m \<and>
         unnumbered_entry m t h =
           (let clean_text = clean_heading_text (h_text h)
            in if clean_text \<noteq> [] \<and> length clean_text > 2 \<and> lower clean_text \<noteq> lower t
                  \<and> lower clean_text \<notin> set toc_words
               then [\<lparr> entry_level = lv, entry_text = clean_text, entry_page = h_page h \<rparr>]
               else [])"
    if a: "enumerates so \<and> length (unique_sizes so un) \<le> 4 \<and> size_level_map so body un = Inr m
      \<and> h \<in> set un \<and> round2 (h_size h) \<noteq> 0"
  proof -
    let ?k = "round2 (h_size h)"
    from a have "?k \<in> set (unique_sizes so un)" by (simp add: unique_sizes_set)
    with a size_level_map_covers [of so un body m] have "?k \<in> fst ` set m" by blast
    then obtain lv where "(?k, lv) \<in> set m" by auto
    from closest_is_own_size [OF this] obtain p where
      p: "p \<in> set m" "fst p = ?k" "min_by (\<lambda>p. \<bar>fst p - ?k\<bar>) m = Some p" by blast
    then have "(?k, snd p) \<in> set m" by (metis prod.collapse)
    moreover from p a have "unnumbered_entry m t h =
           (let clean_text = clean_heading_text (h_text h)
            in if clean_text \<noteq> [] \<and> length clean_text > 2 \<and> lower clean_text \<noteq> lower t
                  \<and> lower clean_text \<notin> set toc_words
               then [\<lparr> entry_level = snd p, entry_text = clean_text, entry_page = h_page h \<rparr>]
               else [])"
      by (simp add: unnumbered_entry_def Let_def)
    ultimately show ?thesis by blast
  qed
  have 2: "fst ` set ps \<subseteq> fst ` set (assign_levels us as m' ps)"
    if "distinct as \<and> length as + length ps \<le> 4 \<and> fst ` set ps \<subseteq> set us"
    using that assign_levels_covers [of as ps us m'] by blast
  have 3: "choose_level as a = fallback_level as" if "gated_level as a = None"
    using that by (simp add: choose_level_def)
  have 4: "\<exists>lv. choose_level as a = Some lv \<and> lv \<notin> set as" if "distinct as \<and> length as < 4"
    using that choose_level_Some [of as a] choose_level_unused [of as a] by blast
  have 5: "choose_level as a = None \<and> assign_levels us as m' ps = m'"
    if "set levels_in_order \<subseteq> set as"
    using that by (simp add: choose_level_exhausted assign_levels_exhausted)
  from 1 2 3 4 5 show ?thesis by blast
qed

theorem C3_level_for_every_cluster_witness:
  "enumerates (\<lambda>xs. xs)
   \<and> unique_sizes (\<lambda>xs. xs) two_sizes = [15, 21 / 2]
   \<and> size_level_map (\<lambda>xs. xs) 10 two_sizes = Inr [(15, H2), (21 / 2, H1)]
   \<and> unnumbered_entry [(15, H2), (21 / 2, H1)] ''Annual Report''
        (plain_candidate ''Gamma Delta'' (21 / 2) 2 False)
       = [\<lparr> entry_level = H1, entry_text = ''Gamma Delta'', entry_page = 2 \<rparr>]
   \<and> assign_levels [15, 21 / 2] [] [] [(21 / 2, low_cluster)] = [(21 / 2, H1)]
   \<and> gated_level [] low_cluster = None
   \<and> choose_level [] low_cluster = Some H1
   \<and> choose_level [H4, H3, H2, H1] low_cluster = None
   \<and> assign_levels [15, 21 / 2] [H4, H3, H2, H1] [] [(21 / 2, low_cluster)] = []"
proof -
  have e: "enumerates (\<lambda>xs. xs)" by (simp add: enumerates_def)
  have u: "unique_sizes (\<lambda>xs. xs) two_sizes = [15, 21 / 2]" by code_simp
  have s: "size_level_map (\<lambda>xs. xs) 10 two_sizes = Inr [(15, H2), (21 / 2, H1)]" by code_simp
  have h: "plain_candidate ''Gamma Delta'' (21 / 2) 2 False \<in> set two_sizes"
    by (simp add: two_sizes_def)
  have r: "round2 (h_size (plain_candidate ''Gamma Delta'' (21 / 2) 2 False)) \<noteq> 0" by code_simp
  have x: "unnumbered_entry [(15, H2), (21 / 2, H1)] ''Annual Report''
        (plain_candidate ''Gamma Delta'' (21 / 2) 2 False)
       = [\<lparr> entry_level = H1, entry_text = ''Gamma Delta'', entry_page = 2 \<rparr>]"
    by code_simp
  have g: "gated_level [] low_cluster = None" by code_simp
  have c: "choose_level [] low_cluster = Some H1" by code_simp
  have n: "choose_level [H4, H3, H2, H1] low_cluster = None" by code_simp
  have a1: "assign_levels [15, 21 / 2] [] [] [(21 / 2, low_cluster)] = [(21 / 2, H1)]"
    by code_simp
  have a2: "assign_levels [15, 21 / 2] [H4, H3, H2, H1] [] [(21 / 2, low_cluster)] = []"
    by code_simp
  have l: "set levels_in_order \<subseteq> set [H4, H3, H2, H1]" by (simp add: levels_in_order_def)
  from e u s h r x g c n a1 a2 l
    C3_level_for_every_cluster [where so = "\<lambda>xs. xs" and un = two_sizes and body = 10
      and m = "[(15, H2), (21 / 2, H1)]" and h = "plain_candidate ''Gamma Delta'' (21 / 2) 2 False"
      and as = "[]" and ps = "[(21 / 2, low_cluster)]" and us = "[15, 21 / 2]" and m' = "[]"
      and a = low_cluster and t = "''Annual Report''"]
    C3_level_for_every_cluster [where as = "[H4, H3, H2, H1]" and a = low_cluster
      and us = "[15, 21 / 2]" and m' = "[]" and ps = "[(21 / 2, low_cluster)]"]
  show ?thesis by simp
qed

text \<open>
  C3 as stated fails for five clusters.  The document has unnumbered candidates in the
  sizes 30, 26, 22, 18 and 14; the first four take the four levels, the fifth gets none,
  no mapped size lies within 2.0 of it, and \<open>Fifth Heading\<close> is not in the outline.
\<close>

theorem C3_fifth_cluster_counterexample:
  "unnumbered_candidates five_sizes_doc
     = [(''First Heading'', 30), (''Second Heading'', 26), (''Third Heading'', 22),
        (''Fourth Heading'', 18), (''Fifth Heading'', 14)]
   \<and> clean_heading_text ''Fifth Heading'' = ''Fifth Heading''
   \<and> fst (extract_document_structure (\<lambda>xs. xs) (Inr five_sizes_doc))
     = Inr \<lparr> title = ''Annual Report'',
             outline = [\<lparr> entry_level = H1, entry_text = ''First Heading'', entry_page = 1 \<rparr>,
                        \<lparr> entry_level = H4, entry_text = ''Fourth Heading'', entry_page = 1 \<rparr>,
                        \<lparr> entry_level = H2, entry_text = ''Second Heading'', entry_page = 1 \<rparr>,
                        \<lparr> entry_level = H3, entry_text = ''Third Heading'', entry_page = 1 \<rparr>] \<rparr>"
  by code_simp

subsection \<open>The title filter\<close>

lemma special_entries_member:
  "h \<in> set cands \<Longrightarrow> h_is_chapter h \<or> h_is_appendix h \<Longrightarrow>
     \<lparr> entry_level = H1, entry_text = h_text h, entry_page = h_page h \<rparr>
       \<in> set (special_entries cands)"
  by (force simp: special_entries_def special_headings_def)

lemma numbered_entries_member:
  "h \<in> set cands \<Longrightarrow> h_is_numbered h \<and> \<not> h_is_chapter h \<and> \<not> h_is_appendix h \<Longrightarrow>
     \<lparr> entry_level = numbered_level (h_text h), entry_text = h_text h, entry_page = h_page h \<rparr>
       \<in> set (numbered_entries cands)"
  by (force simp: numbered_entries_def numbered_headings_def)

lemma special_or_numbered_assembled:
  assumes "h \<in> set cands" and "h_is_numbered h \<or> h_is_chapter h \<or> h_is_appendix h"
  shows "\<exists>e \<in> set (assemble_outline (special_entries cands @ numbered_entries cands @ leveled)).
           lower (entry_text e) = lower (h_text h) \<and> entry_page e = h_page h"
proof -
  let ?xs = "special_entries cands @ numbered_entries cands @ leveled"
  from assms obtain e0 where e0: "e0 \<in> set ?xs" "entry_text e0 = h_text h"
      "entry_page e0 = h_page h"
  proof (cases "h_is_chapter h \<or> h_is_appendix h")
    case True
    from special_entries_member [OF assms(1) True] that show ?thesis by fastforce
  next
    case False
    with assms(2) have "h_is_numbered h \<and> \<not> h_is_chapter h \<and> \<not> h_is_appendix h" by blast
    from numbered_entries_member [OF assms(1) this] that show ?thesis by fastforce
  qed
  from e0(1) have "duplicate_key e0 \<in> set (map duplicate_key ?xs)"
    unfolding set_map by (rule imageI)
  then have "duplicate_key e0 \<in> set (map duplicate_key (assemble_outline ?xs))"
    using assemble_outline_props [of ?xs] by simp
  then obtain e where "e \<in> set (assemble_outline ?xs)" "duplicate_key e = duplicate_key e0"
    by auto
  with e0 show ?thesis by (auto simp: duplicate_key_def)
qed

text \<open>
  C4.  The entries of the unnumbered candidates never equal the title or one of the
  words for a table of contents, without regard to case.  The chapter, appendix and
  numbered candidates are not filtered: each is emitted with its own text, and the
  assembled outline has an entry with that text and page, whatever the title is.
\<close>

theorem C4_title_filter_on_unnumbered_only:
  "(unnumbered_entries set_order body t cands = Inr es \<longrightarrow>
      (\<forall>e \<in> set es. lower (entry_text e) \<noteq> lower t \<and> lower (entry_text e) \<notin> set toc_words))
   \<and> (h \<in> set cands \<and> (h_is_chapter h \<or> h_is_appendix h) \<longrightarrow>
        \<lparr> entry_level = H1, entry_text = h_text h, entry_page = h_page h \<rparr>
          \<in> set (special_entries cands))
   \<and> (h \<in> set cands \<and> h_is_numbered h \<and> \<not> h_is_chapter h \<and> \<not> h_is_appendix h \<longrightarrow>
        \<lparr> entry_level = numbered_level (h_text h), entry_text = h_text h, entry_page = h_page h \<rparr>
          \<in> set (numbered_entries cands))
   \<and> (h \<in> set cands \<and> (h_is_numbered h \<or> h_is_chapter h \<or> h_is_appendix h) \<longrightarrow>
        (\<exists>e \<in> set (assemble_outline (special_entries cands @ numbered_entries cands @ leveled)).
           lower (entry_text e) = lower (h_text h) \<and> entry_page e = h_page h))"
  using unnumbered_entries_from [of set_order body t cands es]
    special_entries_member [of h cands] numbered_entries_member [of h cands]
    special_or_numbered_assembled [of h cands leveled]
  by blast

theorem C4_title_filter_on_unnumbered_only_witness:
  "fst (extract_document_structure (\<lambda>xs. xs) (Inr repeated_title_doc))
     = Inr \<lparr> title = ''1. Overview'',
             outline = [\<lparr> entry_level = H1, entry_text = ''1. Overview'', entry_page = 1 \<rparr>] \<rparr>
   \<and> lower ''1. Overview'' = lower ''1. Overview''
   \<and> \<lparr> entry_level = H1, entry_text = ''1. Overview'', entry_page = 1 \<rparr>
       \<in> set (numbered_entries [plain_candidate ''1. Overview'' 16 1 True])
   \<and> assemble_outline (special_entries [plain_candidate ''1. Overview'' 16 1 True]
        @ numbered_entries [plain_candidate ''1. Overview'' 16 1 True] @ [])
       = [\<lparr> entry_level = H1, entry_text = ''1. Overview'', entry_page = 1 \<rparr>]
   \<and> unnumbered_entries (\<lambda>xs. xs) 10 ''Alpha Beta'' two_sizes
       = Inr [\<lparr> entry_level = H1, entry_text = ''Gamma Delta'', entry_page = 2 \<rparr>]"
proof -
  have a: "fst (extract_document_structure (\<lambda>xs. xs) (Inr repeated_title_doc))
     = Inr \<lparr> title = ''1. Overview'',
             outline = [\<lparr> entry_level = H1, entry_text = ''1. Overview'', entry_page = 1 \<rparr>] \<rparr>"
    by code_simp
  have b: "numbered_level ''1. Overview'' = H1" by code_simp
  have c: "assemble_outline (special_entries [plain_candidate ''1. Overview'' 16 1 True]
        @ numbered_entries [plain_candidate ''1. Overview'' 16 1 True] @ [])
       = [\<lparr> entry_level = H1, entry_text = ''1. Overview'', entry_page = 1 \<rparr>]"
    by code_simp
  have u: "unnumbered_entries (\<lambda>xs. xs) 10 ''Alpha Beta'' two_sizes
       = Inr [\<lparr> entry_level = H1, entry_text = ''Gamma Delta'', entry_page = 2 \<rparr>]"
    by code_simp
  from a b c u
    C4_title_filter_on_unnumbered_only [where h = "plain_candidate ''1. Overview'' 16 1 True"
      and cands = "[plain_candidate ''1. Overview'' 16 1 True]" and leveled = "[]"]
    C4_title_filter_on_unnumbered_only [where set_order = "\<lambda>xs. xs" and body = 10
      and t = "''Alpha Beta''" and cands = two_sizes
      and es = "[\<lparr> entry_level = H1, entry_text = ''Gamma Delta'', entry_page = 2 \<rparr>]"]
  show ?thesis by (simp add: plain_candidate_def)
qed

end
